theory Spec2Isabelle
  imports Complex_Main
begin

section \<open>Study-session tracking: storage layer and services\<close>

text \<open>
  The backend consists of SQL migrations (tables, triggers, row-level security
  policies, views and functions) and TypeScript service classes that reach the
  tables through the PostgREST query builder. Both layers are embedded here:
  a table is a list of rows, a statement takes the database and returns a result
  together with the database after it, and every failure the store reports is a
  value of \<open>error\<close>.

  Timestamps (\<open>TIMESTAMPTZ\<close>) are integers counting microseconds since the
  epoch, which is how the store keeps them; dates are integers counting days.
  \<open>NUMERIC\<close> values are exact rationals. Strings are text of code points
  below 256.

  The columns named \<open>id\<close> are \<open>sess_id\<close>, \<open>tag_id\<close> and \<open>task_id\<close> here, and the
  columns of \<open>tasks\<close> and \<open>study_session_tags\<close> that share a name with a column of
  \<open>study_sessions\<close> carry the prefix \<open>task_\<close> or \<open>tag_\<close>.

  Left out: the network between the service and the store (the \<open>catch\<close>
  branches of the services), the table \<open>auth.users\<close> behind the \<open>user_id\<close>
  columns, the profile and flashcard tables, and any row cap the server applies
  to a response.
\<close>

subsection \<open>Basic types\<close>

type_synonym uuid = string
type_synonym timestamptz = int
type_synonym date = int
type_synonym numeric = rat

datatype error =
    PGRST116                      \<comment> \<open>\<open>.single()\<close>: the result is not exactly one row\<close>
  | Unique_violation              \<comment> \<open>SQLSTATE 23505\<close>
  | Check_violation               \<comment> \<open>SQLSTATE 23514\<close>
  | Foreign_key_violation         \<comment> \<open>SQLSTATE 23503\<close>
  | Row_level_security_violation  \<comment> \<open>SQLSTATE 42501\<close>
  | String_data_right_truncation  \<comment> \<open>SQLSTATE 22001\<close>
  | Numeric_value_out_of_range    \<comment> \<open>SQLSTATE 22003\<close>
  | Invalid_row_count             \<comment> \<open>SQLSTATE 2201W and 2201X: negative LIMIT or OFFSET\<close>

text \<open>\<open>ApiResponse<T>\<close>: \<open>Inl\<close> is \<open>{data: null, error, success: false}\<close>,
  \<open>Inr\<close> is \<open>{data, error: null, success: true}\<close>.\<close>

type_synonym 'a ApiResponse = "error + 'a"

text \<open>What a request sees of its surroundings: the authenticated principal
  (\<open>auth.uid()\<close>, absent for an anonymous request), the database clock
  (\<open>NOW()\<close>), the clock of the service process (\<open>new Date()\<close>) and the
  identifiers \<open>uuid_generate_v4()\<close> hands out to the rows of one statement.\<close>

record environment =
  auth_uid :: "uuid option"
  NOW :: timestamptz
  new_Date :: timestamptz
  uuid_generate_v4 :: "nat \<Rightarrow> uuid"

text \<open>\<open>DATE(ts)\<close> and \<open>CURRENT_DATE\<close>, in a session whose time zone is UTC.\<close>

definition DATE :: "timestamptz \<Rightarrow> date" where
  "DATE ts = ts div 86400000000"

definition CURRENT_DATE :: "environment \<Rightarrow> date" where
  "CURRENT_DATE ctx = DATE (NOW ctx)"

subsection \<open>Numeric conversions\<close>

text \<open>\<open>EXTRACT(EPOCH FROM interval)\<close>: the seconds of an interval, as a numeric
  (its type since PostgreSQL 14).\<close>

definition EXTRACT_EPOCH :: "int \<Rightarrow> numeric" where
  "EXTRACT_EPOCH microseconds = of_int microseconds / 1000000"

text \<open>A numeric assigned to an \<open>INTEGER\<close> is rounded to the nearest integer, a tie
  going away from zero; a result outside 32 bits is an error. The store keeps a
  numeric quotient to 16 significant digits or more and the model keeps it
  exact. The rounded results agree: a quotient of microseconds by \<open>6 * 10^7\<close>, or
  of two counts of tasks, that is not on a rounding tie is farther from it than
  the digits the store drops (for sessions shorter than some centuries).\<close>

definition numeric_round :: "numeric \<Rightarrow> int" where
  "numeric_round x = (if 0 \<le> x then \<lfloor>x + 1 / 2\<rfloor> else - \<lfloor>- x + 1 / 2\<rfloor>)"

definition numeric_to_int4 :: "numeric \<Rightarrow> error + int" where
  "numeric_to_int4 x =
     (let r = numeric_round x
      in if - 2147483648 \<le> r \<and> r \<le> 2147483647 then Inr r
         else Inl Numeric_value_out_of_range)"

text \<open>\<open>ROUND(x, 2)\<close> on a numeric: two decimal places, a tie going away from zero.\<close>

definition ROUND2 :: "numeric \<Rightarrow> numeric" where
  "ROUND2 x = of_int (numeric_round (x * 100)) / 100"

subsection \<open>Table \<open>study_sessions\<close>\<close>

record study_session =
  sess_id :: uuid
  user_id :: uuid
  session_type :: string
  start_time :: timestamptz
  end_time :: "timestamptz option"
  duration_minutes :: "int option"
  target_duration_minutes :: "int option"
  session_notes :: "string option"
  mood_rating :: "int option"
  productivity_rating :: "int option"
  ai_feedback :: "string option"
  ai_feedback_generated_at :: "timestamptz option"
  google_calendar_event_id :: "string option"
  created_at :: timestamptz
  updated_at :: timestamptz

record study_session_tag =
  tag_id :: uuid
  session_id :: uuid
  tag :: string
  tag_created_at :: timestamptz

record task =
  task_id :: uuid
  task_user_id :: uuid
  task_session_id :: "uuid option"
  title :: string
  description :: "string option"
  is_completed :: bool
  completed_at :: "timestamptz option"
  priority :: int
  due_date :: "timestamptz option"
  task_created_at :: timestamptz
  task_updated_at :: timestamptz
  order_index :: int

record database =
  study_sessions :: "study_session list"
  study_session_tags :: "study_session_tag list"
  tasks :: "task list"

text \<open>Trigger function \<open>calculate_session_duration\<close>
  (\<open>BEFORE INSERT OR UPDATE ON study_sessions FOR EACH ROW\<close>). The column
  \<open>start_time\<close> is \<open>NOT NULL\<close>, so only \<open>end_time\<close> can be absent.\<close>

definition calculate_session_duration :: "study_session \<Rightarrow> error + study_session" where
  "calculate_session_duration NEW =
     (case end_time NEW of
        None \<Rightarrow> Inr NEW
      | Some e \<Rightarrow>
          (case numeric_to_int4 (EXTRACT_EPOCH (e - start_time NEW) / 60) of
             Inl err \<Rightarrow> Inl err
           | Inr d \<Rightarrow> Inr (NEW\<lparr>duration_minutes := Some d\<rparr>)))"

text \<open>Trigger function \<open>update_updated_at_column\<close> (\<open>BEFORE UPDATE\<close>).\<close>

definition update_updated_at_column :: "environment \<Rightarrow> study_session \<Rightarrow> study_session" where
  "update_updated_at_column ctx NEW = NEW\<lparr>updated_at := NOW ctx\<rparr>"

text \<open>The column types and \<open>CHECK\<close> constraints of \<open>study_sessions\<close>.\<close>

definition rating_check :: "int option \<Rightarrow> bool" where
  "rating_check r = (case r of None \<Rightarrow> True | Some v \<Rightarrow> 1 \<le> v \<and> v \<le> 5)"

definition valid_duration :: "study_session \<Rightarrow> bool" where
  "valid_duration s = (case end_time s of None \<Rightarrow> True | Some e \<Rightarrow> start_time s < e)"

definition study_sessions_varchar :: "study_session \<Rightarrow> bool" where
  "study_sessions_varchar s \<longleftrightarrow>
     length (session_type s) \<le> 50 \<and>
     (case google_calendar_event_id s of None \<Rightarrow> True | Some g \<Rightarrow> length g \<le> 255)"

definition study_sessions_checks :: "study_session \<Rightarrow> bool" where
  "study_sessions_checks s \<longleftrightarrow>
     rating_check (mood_rating s) \<and> rating_check (productivity_rating s) \<and> valid_duration s"

text \<open>The four policies on \<open>study_sessions\<close> share one predicate,
  \<open>auth.uid() = user_id\<close>.\<close>

definition study_sessions_policy :: "environment \<Rightarrow> study_session \<Rightarrow> bool" where
  "study_sessions_policy ctx s \<longleftrightarrow> auth_uid ctx = Some (user_id s)"

text \<open>The result of \<open>.single()\<close>.\<close>

definition single :: "'a list \<Rightarrow> 'a ApiResponse" where
  "single rows = (case rows of [r] \<Rightarrow> Inr r | _ \<Rightarrow> Inl PGRST116)"

subsection \<open>Session services\<close>

record StudySessionInsert =
  ins_user_id :: uuid
  ins_session_type :: string
  ins_start_time :: timestamptz
  ins_end_time :: "timestamptz option"
  ins_target_duration_minutes :: "int option"
  ins_session_notes :: "string option"
  ins_mood_rating :: "int option"
  ins_productivity_rating :: "int option"

text \<open>A field of an update object is either left out or present (possibly
  \<open>null\<close>).\<close>

datatype 'a patch = Unchanged | SetTo 'a

fun apply_patch :: "'a patch \<Rightarrow> 'a \<Rightarrow> 'a" where
  "apply_patch Unchanged old = old"
| "apply_patch (SetTo v) old = v"

record StudySessionUpdate =
  upd_end_time :: "timestamptz option patch"
  upd_session_notes :: "string option patch"
  upd_mood_rating :: "int option patch"
  upd_productivity_rating :: "int option patch"
  upd_ai_feedback :: "string option patch"
  upd_ai_feedback_generated_at :: "timestamptz option patch"
  upd_google_calendar_event_id :: "string option patch"

text \<open>The row an \<open>INSERT\<close> builds from the supplied columns and the column
  defaults.\<close>

definition new_study_session :: "environment \<Rightarrow> StudySessionInsert \<Rightarrow> study_session" where
  "new_study_session ctx d =
     \<lparr> sess_id = uuid_generate_v4 ctx 0,
       user_id = ins_user_id d,
       session_type = ins_session_type d,
       start_time = ins_start_time d,
       end_time = ins_end_time d,
       duration_minutes = None,
       target_duration_minutes = ins_target_duration_minutes d,
       session_notes = ins_session_notes d,
       mood_rating = ins_mood_rating d,
       productivity_rating = ins_productivity_rating d,
       ai_feedback = None,
       ai_feedback_generated_at = None,
       google_calendar_event_id = None,
       created_at = NOW ctx,
       updated_at = NOW ctx \<rparr>"

text \<open>One row through \<open>INSERT\<close>: column types, the \<open>BEFORE INSERT\<close> trigger,
  the policy's \<open>WITH CHECK\<close>, the \<open>CHECK\<close> constraints.\<close>

definition insert_study_session_row :: "environment \<Rightarrow> study_session \<Rightarrow> error + study_session" where
  "insert_study_session_row ctx r =
     (if \<not> study_sessions_varchar r then Inl String_data_right_truncation
      else case calculate_session_duration r of
             Inl err \<Rightarrow> Inl err
           | Inr r' \<Rightarrow>
               if \<not> study_sessions_policy ctx r' then Inl Row_level_security_violation
               else if \<not> study_sessions_checks r' then Inl Check_violation
               else Inr r')"

text \<open>\<open>StudySessionService.createSession\<close>:
  \<open>from('study_sessions').insert(sessionData).select().single()\<close>.\<close>

definition createSession ::
  "environment \<Rightarrow> database \<Rightarrow> StudySessionInsert \<Rightarrow> study_session ApiResponse \<times> database" where
  "createSession ctx db sessionData =
     (case insert_study_session_row ctx (new_study_session ctx sessionData) of
        Inl err \<Rightarrow> (Inl err, db)
      | Inr r \<Rightarrow> (Inr r, db\<lparr>study_sessions := study_sessions db @ [r]\<rparr>))"

text \<open>\<open>StudySessionService.getSession\<close>:
  \<open>from('study_sessions').select('*').eq('id', sessionId).single()\<close>.\<close>

definition getSession :: "environment \<Rightarrow> database \<Rightarrow> uuid \<Rightarrow> study_session ApiResponse" where
  "getSession ctx db sessionId =
     single (filter (\<lambda>s. study_sessions_policy ctx s \<and> sess_id s = sessionId) (study_sessions db))"

text \<open>The \<open>SET\<close> list of an update.\<close>

definition set_columns :: "StudySessionUpdate \<Rightarrow> study_session \<Rightarrow> study_session" where
  "set_columns u s =
     s\<lparr> end_time := apply_patch (upd_end_time u) (end_time s),
        session_notes := apply_patch (upd_session_notes u) (session_notes s),
        mood_rating := apply_patch (upd_mood_rating u) (mood_rating s),
        productivity_rating := apply_patch (upd_productivity_rating u) (productivity_rating s),
        ai_feedback := apply_patch (upd_ai_feedback u) (ai_feedback s),
        ai_feedback_generated_at :=
          apply_patch (upd_ai_feedback_generated_at u) (ai_feedback_generated_at s),
        google_calendar_event_id :=
          apply_patch (upd_google_calendar_event_id u) (google_calendar_event_id s) \<rparr>"

text \<open>One row through \<open>UPDATE\<close>: the new column values, the two \<open>BEFORE UPDATE\<close>
  triggers in the order of their names (\<open>calculate_duration_trigger\<close>, then
  \<open>update_study_sessions_updated_at\<close>), the policy on the new row, the
  \<open>CHECK\<close> constraints.\<close>

definition update_study_session_row ::
  "environment \<Rightarrow> StudySessionUpdate \<Rightarrow> study_session \<Rightarrow> error + study_session" where
  "update_study_session_row ctx u OLD =
     (let NEW = set_columns u OLD
      in if \<not> study_sessions_varchar NEW then Inl String_data_right_truncation
         else case calculate_session_duration NEW of
                Inl err \<Rightarrow> Inl err
              | Inr r \<Rightarrow>
                  (let r' = update_updated_at_column ctx r
                   in if \<not> study_sessions_policy ctx r' then Inl Row_level_security_violation
                      else if \<not> study_sessions_checks r' then Inl Check_violation
                      else Inr r'))"

text \<open>\<open>StudySessionService.updateSession\<close>:
  \<open>from('study_sessions').update(updates).eq('id', sessionId).select().single()\<close>.
  The statement touches the rows the policy lets the principal see (the primary
  key allows at most one); when they are not exactly one, \<open>.single()\<close> fails and
  nothing is written.\<close>

definition updateSession ::
  "environment \<Rightarrow> database \<Rightarrow> uuid \<Rightarrow> StudySessionUpdate \<Rightarrow> study_session ApiResponse \<times> database" where
  "updateSession ctx db sessionId updates =
     (case filter (\<lambda>s. study_sessions_policy ctx s \<and> sess_id s = sessionId) (study_sessions db) of
        [OLD] \<Rightarrow>
          (case update_study_session_row ctx updates OLD of
             Inl err \<Rightarrow> (Inl err, db)
           | Inr r \<Rightarrow>
               (Inr r,
                db\<lparr>study_sessions :=
                     map (\<lambda>s. if study_sessions_policy ctx s \<and> sess_id s = sessionId then r else s)
                       (study_sessions db)\<rparr>))
      | _ \<Rightarrow> (Inl PGRST116, db))"

text \<open>\<open>StudySessionService.endSession\<close>: the update object is
  \<open>{end_time: new Date().toISOString(), ...endData}\<close>.\<close>

record endData =
  end_mood_rating :: "int option"
  end_productivity_rating :: "int option"
  end_session_notes :: "string option"

definition optional_field :: "'a option \<Rightarrow> 'a option patch" where
  "optional_field v = (case v of None \<Rightarrow> Unchanged | Some x \<Rightarrow> SetTo (Some x))"

definition end_updates :: "environment \<Rightarrow> endData option \<Rightarrow> StudySessionUpdate" where
  "end_updates ctx d =
     \<lparr> upd_end_time = SetTo (Some (new_Date ctx)),
       upd_session_notes = (case d of None \<Rightarrow> Unchanged | Some x \<Rightarrow> optional_field (end_session_notes x)),
       upd_mood_rating = (case d of None \<Rightarrow> Unchanged | Some x \<Rightarrow> optional_field (end_mood_rating x)),
       upd_productivity_rating =
         (case d of None \<Rightarrow> Unchanged | Some x \<Rightarrow> optional_field (end_productivity_rating x)),
       upd_ai_feedback = Unchanged,
       upd_ai_feedback_generated_at = Unchanged,
       upd_google_calendar_event_id = Unchanged \<rparr>"

definition endSession ::
  "environment \<Rightarrow> database \<Rightarrow> uuid \<Rightarrow> endData option \<Rightarrow> study_session ApiResponse \<times> database" where
  "endSession ctx db sessionId d = updateSession ctx db sessionId (end_updates ctx d)"

subsection \<open>Table \<open>tasks\<close>\<close>

text \<open>Trigger function \<open>set_task_completed_at\<close>
  (\<open>task_completion_trigger BEFORE UPDATE ON tasks FOR EACH ROW\<close>; there is no
  such trigger on insert). In the service's types \<open>is_completed\<close> is a boolean,
  never \<open>null\<close>.\<close>

definition set_task_completed_at :: "environment \<Rightarrow> task \<Rightarrow> task \<Rightarrow> task" where
  "set_task_completed_at ctx OLD NEW =
     (if is_completed NEW = True \<and> is_completed OLD = False
        then NEW\<lparr>completed_at := Some (NOW ctx)\<rparr>
      else if is_completed NEW = False
        then NEW\<lparr>completed_at := None\<rparr>
      else NEW)"

text \<open>\<open>update_updated_at_column\<close> as the trigger \<open>update_tasks_updated_at\<close>.\<close>

definition update_tasks_updated_at :: "environment \<Rightarrow> task \<Rightarrow> task" where
  "update_tasks_updated_at ctx NEW = NEW\<lparr>task_updated_at := NOW ctx\<rparr>"

text \<open>The two \<open>BEFORE UPDATE\<close> triggers of \<open>tasks\<close>, in the order of their names
  (\<open>task_completion_trigger\<close>, then \<open>update_tasks_updated_at\<close>).\<close>

definition tasks_before_update :: "environment \<Rightarrow> task \<Rightarrow> task \<Rightarrow> task" where
  "tasks_before_update ctx OLD NEW =
     update_tasks_updated_at ctx (set_task_completed_at ctx OLD NEW)"

definition tasks_policy :: "environment \<Rightarrow> task \<Rightarrow> bool" where
  "tasks_policy ctx t \<longleftrightarrow> auth_uid ctx = Some (task_user_id t)"

text \<open>\<open>title VARCHAR(500)\<close>, \<open>CHECK (char_length(title) > 0)\<close> and the foreign
  key \<open>session_id REFERENCES study_sessions(id)\<close>, which is looked up when a row
  is inserted or its \<open>session_id\<close> changes (\<open>fk_changed\<close>).\<close>

definition title_not_empty :: "task \<Rightarrow> bool" where
  "title_not_empty t \<longleftrightarrow> length (title t) > 0"

definition tasks_session_fk :: "database \<Rightarrow> task \<Rightarrow> bool" where
  "tasks_session_fk db t =
     (case task_session_id t of
        None \<Rightarrow> True
      | Some sid \<Rightarrow> (\<exists>s \<in> set (study_sessions db). sess_id s = sid))"

definition check_task_row :: "environment \<Rightarrow> database \<Rightarrow> bool \<Rightarrow> task \<Rightarrow> error + task" where
  "check_task_row ctx db fk_changed t =
     (if length (title t) > 500 then Inl String_data_right_truncation
      else if \<not> tasks_policy ctx t then Inl Row_level_security_violation
      else if \<not> title_not_empty t then Inl Check_violation
      else if fk_changed \<and> \<not> tasks_session_fk db t then Inl Foreign_key_violation
      else Inr t)"

subsection \<open>Deleting a session\<close>

text \<open>\<open>StudySessionService.deleteSession\<close>:
  \<open>from('study_sessions').delete().eq('id', sessionId)\<close>. The rows deleted are
  those the policy lets the principal see; a statement that deletes no row is
  still a success. The foreign keys then act on the other tables:
  \<open>study_session_tags.session_id ... ON DELETE CASCADE\<close> and
  \<open>tasks.session_id ... ON DELETE SET NULL\<close>, the latter an update that fires the
  triggers of \<open>tasks\<close>.\<close>

definition deleted_ids :: "environment \<Rightarrow> database \<Rightarrow> uuid \<Rightarrow> uuid list" where
  "deleted_ids ctx db sessionId =
     map sess_id
       (filter (\<lambda>s. study_sessions_policy ctx s \<and> sess_id s = sessionId) (study_sessions db))"

definition on_delete_set_null :: "environment \<Rightarrow> uuid list \<Rightarrow> task \<Rightarrow> task" where
  "on_delete_set_null ctx ids t =
     (case task_session_id t of
        None \<Rightarrow> t
      | Some sid \<Rightarrow>
          if sid \<in> set ids then tasks_before_update ctx t (t\<lparr>task_session_id := None\<rparr>)
          else t)"

definition deleteSession :: "environment \<Rightarrow> database \<Rightarrow> uuid \<Rightarrow> unit ApiResponse \<times> database" where
  "deleteSession ctx db sessionId =
     (let ids = deleted_ids ctx db sessionId
      in (Inr (),
          \<lparr> study_sessions =
              filter (\<lambda>s. \<not> (study_sessions_policy ctx s \<and> sess_id s = sessionId))
                (study_sessions db),
            study_session_tags =
              filter (\<lambda>t. session_id t \<notin> set ids) (study_session_tags db),
            tasks = map (on_delete_set_null ctx ids) (tasks db) \<rparr>))"

subsection \<open>Listing sessions\<close>

datatype order_column = By_start_time | By_created_at
datatype order_direction = Asc | Desc

record DateRangeFilter =
  start_date :: timestamptz
  end_date :: timestamptz

record session_options =
  limit :: "int option"
  offset :: "int option"
  orderBy :: "order_column option"
  orderDirection :: "order_direction option"
  dateRange :: "DateRangeFilter option"

text \<open>A number is truthy when it is present and not zero.\<close>

definition truthy :: "int option \<Rightarrow> bool" where
  "truthy n = (case n of None \<Rightarrow> False | Some v \<Rightarrow> v \<noteq> 0)"

text \<open>\<open>options.limit || 10\<close>.\<close>

definition limit_or_10 :: "int option \<Rightarrow> int" where
  "limit_or_10 n = (case n of None \<Rightarrow> 10 | Some v \<Rightarrow> if v \<noteq> 0 then v else 10)"

text \<open>The query builder: \<open>.limit(n)\<close> sets the limit, \<open>.range(from, to)\<close> sets the
  offset to \<open>from\<close> and the limit to \<open>to - from + 1\<close>.\<close>

record query_window =
  window_limit :: "int option"
  window_offset :: "int option"

definition query_limit :: "int \<Rightarrow> query_window \<Rightarrow> query_window" where
  "query_limit n q = q\<lparr>window_limit := Some n\<rparr>"

definition query_range :: "int \<Rightarrow> int \<Rightarrow> query_window \<Rightarrow> query_window" where
  "query_range from to q = q\<lparr>window_offset := Some from, window_limit := Some (to - from + 1)\<rparr>"

definition apply_pagination :: "session_options option \<Rightarrow> query_window" where
  "apply_pagination options =
     (let q0 = \<lparr>window_limit = None, window_offset = None\<rparr>;
          lim = (case options of None \<Rightarrow> None | Some opts \<Rightarrow> limit opts);
          off = (case options of None \<Rightarrow> None | Some opts \<Rightarrow> offset opts);
          q1 = (case lim of None \<Rightarrow> q0 | Some n \<Rightarrow> if truthy lim then query_limit n q0 else q0)
      in case off of
           None \<Rightarrow> q1
         | Some k \<Rightarrow> if truthy off then query_range k (k + limit_or_10 lim - 1) q1 else q1)"

text \<open>\<open>LIMIT\<close> and \<open>OFFSET\<close> on an ordered result.\<close>

definition run_window :: "query_window \<Rightarrow> 'a list \<Rightarrow> error + 'a list" where
  "run_window q rows =
     (if (case window_limit q of None \<Rightarrow> False | Some l \<Rightarrow> l < 0) \<or>
         (case window_offset q of None \<Rightarrow> False | Some k \<Rightarrow> k < 0)
        then Inl Invalid_row_count
      else
        (let after = (case window_offset q of None \<Rightarrow> rows | Some k \<Rightarrow> drop (nat k) rows)
         in Inr (case window_limit q of None \<Rightarrow> after | Some l \<Rightarrow> take (nat l) after)))"

text \<open>\<open>ORDER BY column ASC\<close> or \<open>DESC\<close>; rows with equal keys stay in table order.\<close>

definition order_key :: "order_column \<Rightarrow> study_session \<Rightarrow> int" where
  "order_key c s = (case c of By_start_time \<Rightarrow> start_time s | By_created_at \<Rightarrow> created_at s)"

definition order_rows :: "order_column \<Rightarrow> bool \<Rightarrow> study_session list \<Rightarrow> study_session list" where
  "order_rows c ascending rows =
     (if ascending then sort_key (order_key c) rows
      else sort_key (\<lambda>s. - order_key c s) rows)"

definition in_date_range :: "DateRangeFilter option \<Rightarrow> study_session \<Rightarrow> bool" where
  "in_date_range r s =
     (case r of None \<Rightarrow> True | Some d \<Rightarrow> start_date d \<le> start_time s \<and> start_time s \<le> end_date d)"

text \<open>\<open>StudySessionService.getUserSessions\<close>.\<close>

definition getUserSessions ::
  "environment \<Rightarrow> database \<Rightarrow> uuid \<Rightarrow> session_options option \<Rightarrow> study_session list ApiResponse" where
  "getUserSessions ctx db userId options =
     (let rows = filter (\<lambda>s. study_sessions_policy ctx s \<and> user_id s = userId) (study_sessions db);
          rows = filter (in_date_range (case options of None \<Rightarrow> None | Some opts \<Rightarrow> dateRange opts)) rows;
          orderBy = (case options of None \<Rightarrow> By_start_time | Some opts \<Rightarrow>
                       (case orderBy opts of None \<Rightarrow> By_start_time | Some c \<Rightarrow> c));
          orderDirection = (case options of None \<Rightarrow> Desc | Some opts \<Rightarrow>
                       (case orderDirection opts of None \<Rightarrow> Desc | Some d \<Rightarrow> d));
          rows = order_rows orderBy (orderDirection = Asc) rows
      in run_window (apply_pagination options) rows)"

text \<open>\<open>StudySessionService.getActiveSession\<close>: the latest session without an
  \<open>end_time\<close>, through \<open>.limit(1).maybeSingle()\<close>.\<close>

definition maybeSingle :: "'a list \<Rightarrow> 'a option ApiResponse" where
  "maybeSingle rows = (case rows of [] \<Rightarrow> Inr None | [r] \<Rightarrow> Inr (Some r) | _ \<Rightarrow> Inl PGRST116)"

definition getActiveSession :: "environment \<Rightarrow> database \<Rightarrow> uuid \<Rightarrow> study_session option ApiResponse" where
  "getActiveSession ctx db userId =
     maybeSingle
       (take 1
          (order_rows By_start_time False
             (filter (\<lambda>s. study_sessions_policy ctx s \<and> user_id s = userId \<and> end_time s = None)
                (study_sessions db))))"

subsection \<open>Analytics\<close>

text \<open>The aggregates skip \<open>NULL\<close>s and are \<open>NULL\<close> over no value at all.\<close>

definition non_null :: "'a option list \<Rightarrow> 'a list" where
  "non_null xs = concat (map (\<lambda>x. case x of None \<Rightarrow> [] | Some v \<Rightarrow> [v]) xs)"

definition sql_SUM :: "int option list \<Rightarrow> int option" where
  "sql_SUM xs = (case non_null xs of [] \<Rightarrow> None | v # vs \<Rightarrow> Some (sum_list (v # vs)))"

definition sql_AVG :: "int option list \<Rightarrow> numeric option" where
  "sql_AVG xs =
     (case non_null xs of
        [] \<Rightarrow> None
      | v # vs \<Rightarrow> Some (of_int (sum_list (v # vs)) / of_nat (length (v # vs))))"

definition sql_MAX :: "int list \<Rightarrow> int option" where
  "sql_MAX xs = (case xs of [] \<Rightarrow> None | v # vs \<Rightarrow> Some (fold max vs v))"

definition COUNT_where :: "('a \<Rightarrow> bool) \<Rightarrow> 'a list \<Rightarrow> int" where
  "COUNT_where P rows = int (length (filter P rows))"

record user_study_stats_row =
  stats_user_id :: uuid
  total_sessions :: int
  total_minutes_studied :: "int option"
  avg_session_duration :: "numeric option"
  avg_productivity_rating :: "numeric option"
  avg_mood_rating :: "numeric option"
  last_session_date :: "timestamptz option"
  sessions_this_week :: int
  sessions_this_month :: int

definition days :: "int \<Rightarrow> int" where
  "days n = n * 86400000000"

text \<open>View \<open>user_study_stats\<close>: one row for each \<open>user_id\<close> that has a session
  with an \<open>end_time\<close>.\<close>

definition stats_of_group :: "timestamptz \<Rightarrow> uuid \<Rightarrow> study_session list \<Rightarrow> user_study_stats_row" where
  "stats_of_group now u g =
     \<lparr> stats_user_id = u,
       total_sessions = COUNT_where (\<lambda>s. True) g,
       total_minutes_studied = sql_SUM (map duration_minutes g),
       avg_session_duration = sql_AVG (map duration_minutes g),
       avg_productivity_rating = sql_AVG (map productivity_rating g),
       avg_mood_rating = sql_AVG (map mood_rating g),
       last_session_date = sql_MAX (map start_time g),
       sessions_this_week = COUNT_where (\<lambda>s. start_time s \<ge> now - days 7) g,
       sessions_this_month = COUNT_where (\<lambda>s. start_time s \<ge> now - days 30) g \<rparr>"

definition user_study_stats :: "timestamptz \<Rightarrow> study_session list \<Rightarrow> user_study_stats_row list" where
  "user_study_stats now rows =
     (let ended = filter (\<lambda>s. end_time s \<noteq> None) rows
      in map (\<lambda>u. stats_of_group now u (filter (\<lambda>s. user_id s = u) ended))
           (remdups (map user_id ended)))"

text \<open>\<open>StudySessionService.getUserStats\<close>:
  \<open>from('user_study_stats').select('*').eq('user_id', userId).single()\<close>. The view
  carries no policy of its own and names none: it reads the table as written.\<close>

definition getUserStats :: "environment \<Rightarrow> database \<Rightarrow> uuid \<Rightarrow> user_study_stats_row ApiResponse" where
  "getUserStats ctx db userId =
     single (filter (\<lambda>r. stats_user_id r = userId) (user_study_stats (NOW ctx) (study_sessions db)))"

text \<open>Function \<open>get_study_streak(p_user_id)\<close>. The \<open>EXISTS\<close> query:\<close>

definition session_exists_on :: "study_session list \<Rightarrow> uuid \<Rightarrow> date \<Rightarrow> bool" where
  "session_exists_on rows p_user_id check_date \<longleftrightarrow>
     (\<exists>s \<in> set rows.
        user_id s = p_user_id \<and> DATE (start_time s) = check_date \<and> end_time s \<noteq> None)"

text \<open>The \<open>LOOP\<close>, with the variables \<open>streak\<close> and \<open>check_date\<close>.\<close>

function streak_loop :: "study_session list \<Rightarrow> uuid \<Rightarrow> int \<Rightarrow> date \<Rightarrow> int" where
  "streak_loop rows p_user_id streak check_date =
     (if session_exists_on rows p_user_id check_date
        then streak_loop rows p_user_id (streak + 1) (check_date - 1)
      else streak)"
  by pat_completeness auto
termination
proof (relation "measure (\<lambda>(rows, u, n, d). length (filter (\<lambda>s. DATE (start_time s) \<le> d) rows))")
  show "wf (measure (\<lambda>(rows, u, n, d). length (filter (\<lambda>s. DATE (start_time s) \<le> d) rows)))"
    by simp
next
  fix rows :: "study_session list" and p_user_id :: uuid and streak check_date :: int
  assume "session_exists_on rows p_user_id check_date"
  then obtain s where s: "s \<in> set rows" "DATE (start_time s) = check_date"
    by (auto simp: session_exists_on_def)
  have "filter (\<lambda>s. DATE (start_time s) \<le> check_date - 1) rows =
        filter (\<lambda>s. DATE (start_time s) \<le> check_date - 1)
          (filter (\<lambda>s. DATE (start_time s) \<le> check_date) rows)"
    by (simp add: conj_commute) (rule filter_cong, auto)
  moreover have "length (filter (\<lambda>s. DATE (start_time s) \<le> check_date - 1)
          (filter (\<lambda>s. DATE (start_time s) \<le> check_date) rows))
        < length (filter (\<lambda>s. DATE (start_time s) \<le> check_date) rows)"
    using s by (intro length_filter_less [of s]) auto
  ultimately show "((rows, p_user_id, streak + 1, check_date - 1), (rows, p_user_id, streak, check_date))
        \<in> measure (\<lambda>(rows, u, n, d). length (filter (\<lambda>s. DATE (start_time s) \<le> d) rows))"
    by simp
qed

declare streak_loop.simps [simp del]

definition get_study_streak :: "environment \<Rightarrow> database \<Rightarrow> uuid \<Rightarrow> int" where
  "get_study_streak ctx db p_user_id =
     streak_loop (study_sessions db) p_user_id 0 (CURRENT_DATE ctx)"

text \<open>\<open>StudySessionService.getStudyStreak\<close>: \<open>rpc('get_study_streak', ...)\<close>, with
  \<open>data || 0\<close> as the result.\<close>

definition or_zero :: "'a::zero \<Rightarrow> 'a" where
  "or_zero v = (if v = 0 then 0 else v)"

definition getStudyStreak :: "environment \<Rightarrow> database \<Rightarrow> uuid \<Rightarrow> int ApiResponse" where
  "getStudyStreak ctx db userId = Inr (or_zero (get_study_streak ctx db userId))"

text \<open>Function \<open>get_task_completion_rate(p_user_id)\<close>.\<close>

definition get_task_completion_rate :: "database \<Rightarrow> uuid \<Rightarrow> numeric" where
  "get_task_completion_rate db p_user_id =
     (let total_tasks = COUNT_where (\<lambda>t. task_user_id t = p_user_id) (tasks db)
      in if total_tasks = 0 then 0
         else
           (let completed_tasks =
                  COUNT_where (\<lambda>t. task_user_id t = p_user_id \<and> is_completed t = True) (tasks db)
            in ROUND2 ((of_int completed_tasks / of_int total_tasks) * 100)))"

text \<open>\<open>TaskService.getTaskCompletionRate\<close>.\<close>

definition getTaskCompletionRate :: "environment \<Rightarrow> database \<Rightarrow> uuid \<Rightarrow> numeric ApiResponse" where
  "getTaskCompletionRate ctx db userId = Inr (or_zero (get_task_completion_rate db userId))"

subsection \<open>Tags\<close>

text \<open>\<open>tag.toLowerCase().trim()\<close>. A character here is a code point below 256
  (Basic Latin and Latin-1 Supplement). Among these \<open>toLowerCase\<close> lowers the
  letters \<open>A\<close> to \<open>Z\<close> and the capitals from U+00C0 to U+00DE other than the
  multiplication sign U+00D7, each by 32, and \<open>trim\<close> removes tab, line feed,
  vertical tab, form feed, carriage return, space and no-break space at both
  ends.\<close>

definition lower_char :: "char \<Rightarrow> char" where
  "lower_char c =
     (let n = (of_char c :: nat)
      in if (65 \<le> n \<and> n \<le> 90) \<or> (192 \<le> n \<and> n \<le> 222 \<and> n \<noteq> 215)
         then char_of (n + 32) else c)"

definition toLowerCase :: "string \<Rightarrow> string" where
  "toLowerCase s = map lower_char s"

definition white_space :: "char \<Rightarrow> bool" where
  "white_space c \<longleftrightarrow> (of_char c :: nat) \<in> {9, 10, 11, 12, 13, 32, 160}"

definition trim :: "string \<Rightarrow> string" where
  "trim s = rev (dropWhile white_space (rev (dropWhile white_space s)))"

definition normalize_tag :: "string \<Rightarrow> string" where
  "normalize_tag t = trim (toLowerCase t)"

record StudySessionTagInsert =
  ins_session_id :: uuid
  ins_tag :: string

text \<open>The three policies on \<open>study_session_tags\<close> share one predicate: a session
  with the tag's \<open>session_id\<close> exists and belongs to \<open>auth.uid()\<close>.\<close>

definition study_session_tags_policy :: "environment \<Rightarrow> database \<Rightarrow> study_session_tag \<Rightarrow> bool" where
  "study_session_tags_policy ctx db t \<longleftrightarrow>
     (\<exists>s \<in> set (study_sessions db). sess_id s = session_id t \<and> Some (user_id s) = auth_uid ctx)"

text \<open>A multi-row \<open>INSERT\<close> into \<open>study_session_tags\<close>, row by row: \<open>tag VARCHAR(50)\<close>,
  the policy's \<open>WITH CHECK\<close>, \<open>UNIQUE(session_id, tag)\<close> against the table and the
  rows already inserted by the statement. \<open>tbl\<close> is the table so far and \<open>k\<close>
  counts the rows; the result is the list of inserted rows. The first error
  aborts the whole statement.\<close>

fun insert_tag_rows ::
  "environment \<Rightarrow> database \<Rightarrow> study_session_tag list \<Rightarrow> nat \<Rightarrow> StudySessionTagInsert list
     \<Rightarrow> error + study_session_tag list" where
  "insert_tag_rows ctx db tbl k [] = Inr []"
| "insert_tag_rows ctx db tbl k (d # ds) =
     (let r = \<lparr> tag_id = uuid_generate_v4 ctx k, session_id = ins_session_id d,
                 tag = ins_tag d, tag_created_at = NOW ctx \<rparr>
      in if length (tag r) > 50 then Inl String_data_right_truncation
         else if \<not> study_session_tags_policy ctx db r then Inl Row_level_security_violation
         else if \<exists>t \<in> set tbl. session_id t = session_id r \<and> tag t = tag r
           then Inl Unique_violation
         else (case insert_tag_rows ctx db (tbl @ [r]) (Suc k) ds of
                 Inl err \<Rightarrow> Inl err
               | Inr rs \<Rightarrow> Inr (r # rs)))"

text \<open>\<open>StudySessionService.addSessionTags\<close>:
  \<open>from('study_session_tags').insert(tagInserts).select()\<close>.\<close>

definition addSessionTags ::
  "environment \<Rightarrow> database \<Rightarrow> uuid \<Rightarrow> string list \<Rightarrow> study_session_tag list ApiResponse \<times> database" where
  "addSessionTags ctx db sessionId tags =
     (let tagInserts = map (\<lambda>t. \<lparr>ins_session_id = sessionId, ins_tag = normalize_tag t\<rparr>) tags
      in case insert_tag_rows ctx db (study_session_tags db) 0 tagInserts of
           Inl err \<Rightarrow> (Inl err, db)
         | Inr rs \<Rightarrow> (Inr rs, db\<lparr>study_session_tags := study_session_tags db @ rs\<rparr>))"

text \<open>\<open>StudySessionService.getSessionTags\<close>, and the set of tag strings it
  carries.\<close>

definition getSessionTags :: "environment \<Rightarrow> database \<Rightarrow> uuid \<Rightarrow> study_session_tag list ApiResponse" where
  "getSessionTags ctx db sessionId =
     Inr (filter (\<lambda>t. study_session_tags_policy ctx db t \<and> session_id t = sessionId)
            (study_session_tags db))"

definition listTags :: "environment \<Rightarrow> database \<Rightarrow> uuid \<Rightarrow> string set" where
  "listTags ctx db sessionId =
     (case getSessionTags ctx db sessionId of Inl err \<Rightarrow> {} | Inr rows \<Rightarrow> tag ` set rows)"

text \<open>\<open>StudySessionService.removeSessionTag\<close>.\<close>

definition removeSessionTag ::
  "environment \<Rightarrow> database \<Rightarrow> uuid \<Rightarrow> string \<Rightarrow> unit ApiResponse \<times> database" where
  "removeSessionTag ctx db sessionId t =
     (Inr (),
      db\<lparr>study_session_tags :=
           filter (\<lambda>r. \<not> (study_session_tags_policy ctx db r \<and> session_id r = sessionId \<and>
                          tag r = normalize_tag t))
             (study_session_tags db)\<rparr>)"

text \<open>\<open>StudySessionService.getSessionsByTag\<close>: the session ids of the visible tag
  rows, then the visible sessions of \<open>userId\<close> among them, latest first.\<close>

definition getSessionsByTag ::
  "environment \<Rightarrow> database \<Rightarrow> uuid \<Rightarrow> string \<Rightarrow> study_session list ApiResponse" where
  "getSessionsByTag ctx db userId t =
     (let tagData = filter (\<lambda>r. study_session_tags_policy ctx db r \<and> tag r = normalize_tag t)
                      (study_session_tags db)
      in if tagData = [] then Inr []
         else
           (let sessionIds = map session_id tagData
            in Inr (order_rows By_start_time False
                      (filter (\<lambda>s. study_sessions_policy ctx s \<and> user_id s = userId \<and>
                                    sess_id s \<in> set sessionIds)
                         (study_sessions db)))))"

subsection \<open>Task services\<close>

text \<open>\<open>createTask\<close> sends the caller's object to the store as it is. Beside the
  fields the interface \<open>TaskInsert\<close> declares, the object can carry other
  columns of the table; of these the model keeps \<open>is_completed\<close> and
  \<open>completed_at\<close>.\<close>

record TaskInsert =
  ti_user_id :: uuid
  ti_session_id :: "uuid option"
  ti_title :: string
  ti_description :: "string option"
  ti_priority :: "int option"
  ti_due_date :: "timestamptz option"
  ti_order_index :: "int option"
  ti_is_completed :: "bool option"
  ti_completed_at :: "timestamptz option"

record TaskUpdate =
  tu_title :: "string patch"
  tu_description :: "string option patch"
  tu_is_completed :: "bool patch"
  tu_priority :: "int patch"
  tu_due_date :: "timestamptz option patch"
  tu_order_index :: "int patch"
  tu_session_id :: "uuid option patch"

text \<open>The row built from the object and the column defaults
  (\<open>is_completed DEFAULT FALSE\<close>, \<open>priority DEFAULT 0\<close>, \<open>order_index DEFAULT 0\<close>,
  no default for \<open>completed_at\<close>).\<close>

definition new_task :: "environment \<Rightarrow> TaskInsert \<Rightarrow> task" where
  "new_task ctx d =
     \<lparr> task_id = uuid_generate_v4 ctx 0,
       task_user_id = ti_user_id d,
       task_session_id = ti_session_id d,
       title = ti_title d,
       description = ti_description d,
       is_completed = (case ti_is_completed d of None \<Rightarrow> False | Some b \<Rightarrow> b),
       completed_at = ti_completed_at d,
       priority = (case ti_priority d of None \<Rightarrow> 0 | Some p \<Rightarrow> p),
       due_date = ti_due_date d,
       task_created_at = NOW ctx,
       task_updated_at = NOW ctx,
       order_index = (case ti_order_index d of None \<Rightarrow> 0 | Some i \<Rightarrow> i) \<rparr>"

text \<open>\<open>INSERT INTO tasks\<close> of one row. No trigger of \<open>tasks\<close> fires on insert.\<close>

definition insert_task :: "environment \<Rightarrow> database \<Rightarrow> task \<Rightarrow> task ApiResponse \<times> database" where
  "insert_task ctx db r =
     (case check_task_row ctx db True r of
        Inl err \<Rightarrow> (Inl err, db)
      | Inr t \<Rightarrow> (Inr t, db\<lparr>tasks := tasks db @ [t]\<rparr>))"

text \<open>\<open>TaskService.createTask\<close>: \<open>from('tasks').insert(taskData).select().single()\<close>.\<close>

definition createTask :: "environment \<Rightarrow> database \<Rightarrow> TaskInsert \<Rightarrow> task ApiResponse \<times> database" where
  "createTask ctx db taskData = insert_task ctx db (new_task ctx taskData)"

text \<open>\<open>TaskService.getTask\<close>.\<close>

definition getTask :: "environment \<Rightarrow> database \<Rightarrow> uuid \<Rightarrow> task ApiResponse" where
  "getTask ctx db taskId =
     single (filter (\<lambda>t. tasks_policy ctx t \<and> task_id t = taskId) (tasks db))"

definition set_task_columns :: "TaskUpdate \<Rightarrow> task \<Rightarrow> task" where
  "set_task_columns u t =
     t\<lparr> title := apply_patch (tu_title u) (title t),
        description := apply_patch (tu_description u) (description t),
        is_completed := apply_patch (tu_is_completed u) (is_completed t),
        priority := apply_patch (tu_priority u) (priority t),
        due_date := apply_patch (tu_due_date u) (due_date t),
        order_index := apply_patch (tu_order_index u) (order_index t),
        task_session_id := apply_patch (tu_session_id u) (task_session_id t) \<rparr>"

definition update_task_row :: "environment \<Rightarrow> database \<Rightarrow> TaskUpdate \<Rightarrow> task \<Rightarrow> error + task" where
  "update_task_row ctx db u OLD =
     check_task_row ctx db
       (task_session_id (set_task_columns u OLD) \<noteq> task_session_id OLD)
       (tasks_before_update ctx OLD (set_task_columns u OLD))"

text \<open>\<open>TaskService.updateTask\<close>:
  \<open>from('tasks').update(updates).eq('id', taskId).select().single()\<close>.\<close>

definition updateTask ::
  "environment \<Rightarrow> database \<Rightarrow> uuid \<Rightarrow> TaskUpdate \<Rightarrow> task ApiResponse \<times> database" where
  "updateTask ctx db taskId updates =
     (case filter (\<lambda>t. tasks_policy ctx t \<and> task_id t = taskId) (tasks db) of
        [OLD] \<Rightarrow>
          (case update_task_row ctx db updates OLD of
             Inl err \<Rightarrow> (Inl err, db)
           | Inr r \<Rightarrow>
               (Inr r,
                db\<lparr>tasks := map (\<lambda>t. if tasks_policy ctx t \<and> task_id t = taskId then r else t)
                               (tasks db)\<rparr>))
      | _ \<Rightarrow> (Inl PGRST116, db))"

text \<open>\<open>TaskService.deleteTask\<close>.\<close>

definition deleteTask :: "environment \<Rightarrow> database \<Rightarrow> uuid \<Rightarrow> unit ApiResponse \<times> database" where
  "deleteTask ctx db taskId =
     (Inr (), db\<lparr>tasks := filter (\<lambda>t. \<not> (tasks_policy ctx t \<and> task_id t = taskId)) (tasks db)\<rparr>)"

text \<open>\<open>TaskService.toggleTaskCompletion\<close>: read \<open>is_completed\<close>, then update it to
  its negation.\<close>

definition no_task_update :: TaskUpdate where
  "no_task_update =
     \<lparr> tu_title = Unchanged, tu_description = Unchanged, tu_is_completed = Unchanged,
       tu_priority = Unchanged, tu_due_date = Unchanged, tu_order_index = Unchanged,
       tu_session_id = Unchanged \<rparr>"

definition toggleTaskCompletion ::
  "environment \<Rightarrow> database \<Rightarrow> uuid \<Rightarrow> task ApiResponse \<times> database" where
  "toggleTaskCompletion ctx db taskId =
     (case getTask ctx db taskId of
        Inl getError \<Rightarrow> (Inl getError, db)
      | Inr currentTask \<Rightarrow>
          updateTask ctx db taskId
            (no_task_update\<lparr>tu_is_completed := SetTo (\<not> is_completed currentTask)\<rparr>))"

text \<open>\<open>TaskService.getUserTasks\<close>: the visible tasks of \<open>userId\<close> by \<open>order_index\<close>
  ascending, then \<open>created_at\<close> descending; the filters and the limit apply when
  the option is given (for \<open>sessionId\<close> and \<open>limit\<close>: when it is truthy).\<close>

record task_options =
  opt_completed :: "bool option"
  opt_sessionId :: "uuid option"
  opt_limit :: "int option"

definition order_tasks :: "task list \<Rightarrow> task list" where
  "order_tasks rows = sort_key order_index (sort_key (\<lambda>t. - task_created_at t) rows)"

definition getUserTasks ::
  "environment \<Rightarrow> database \<Rightarrow> uuid \<Rightarrow> task_options option \<Rightarrow> task list ApiResponse" where
  "getUserTasks ctx db userId options =
     (let rows = order_tasks (filter (\<lambda>t. tasks_policy ctx t \<and> task_user_id t = userId) (tasks db));
          rows = (case options of None \<Rightarrow> rows | Some opts \<Rightarrow>
                    (case opt_completed opts of None \<Rightarrow> rows
                     | Some c \<Rightarrow> filter (\<lambda>t. is_completed t = c) rows));
          rows = (case options of None \<Rightarrow> rows | Some opts \<Rightarrow>
                    (case opt_sessionId opts of None \<Rightarrow> rows
                     | Some sid \<Rightarrow> if sid \<noteq> [] then filter (\<lambda>t. task_session_id t = Some sid) rows
                                  else rows));
          lim = (case options of None \<Rightarrow> None | Some opts \<Rightarrow> opt_limit opts)
      in case lim of
           None \<Rightarrow> Inr rows
         | Some n \<Rightarrow> if truthy lim then run_window (query_limit n \<lparr>window_limit = None, window_offset = None\<rparr>) rows
                      else Inr rows)"

text \<open>\<open>TaskService.reorderTasks\<close>: one statement
  \<open>from('tasks').update({ order_index }).eq('id', id)\<close> for each element, awaited
  together; their results are not looked at, and the answer is a success. The
  statements are taken here in the order of the list. A statement whose row
  fails a check changes nothing.\<close>

fun all_or_error :: "(error + 'a) list \<Rightarrow> error + 'a list" where
  "all_or_error [] = Inr []"
| "all_or_error (Inl err # rest) = Inl err"
| "all_or_error (Inr x # rest) =
     (case all_or_error rest of Inl err \<Rightarrow> Inl err | Inr xs \<Rightarrow> Inr (x # xs))"

definition update_order_index :: "environment \<Rightarrow> database \<Rightarrow> uuid \<Rightarrow> int \<Rightarrow> database" where
  "update_order_index ctx db taskId idx =
     (case all_or_error
             (map (\<lambda>t. if tasks_policy ctx t \<and> task_id t = taskId
                       then update_task_row ctx db (no_task_update\<lparr>tu_order_index := SetTo idx\<rparr>) t
                       else Inr t)
                (tasks db)) of
        Inl err \<Rightarrow> db
      | Inr rows \<Rightarrow> db\<lparr>tasks := rows\<rparr>)"

fun reorder_statements :: "environment \<Rightarrow> database \<Rightarrow> (uuid \<times> int) list \<Rightarrow> database" where
  "reorder_statements ctx db [] = db"
| "reorder_statements ctx db ((taskId, idx) # rest) =
     reorder_statements ctx (update_order_index ctx db taskId idx) rest"

definition reorderTasks ::
  "environment \<Rightarrow> database \<Rightarrow> (uuid \<times> int) list \<Rightarrow> unit ApiResponse \<times> database" where
  "reorderTasks ctx db taskUpdates = (Inr (), reorder_statements ctx db taskUpdates)"

section \<open>Properties\<close>

subsection \<open>Notions the properties are stated with\<close>

text \<open>The whole minutes between two timestamps as the specification words them:
  the floor of the elapsed seconds over 60.\<close>

definition spec_duration_minutes :: "timestamptz \<Rightarrow> timestamptz \<Rightarrow> int" where
  "spec_duration_minutes st e = \<lfloor>EXTRACT_EPOCH (e - st) / 60\<rfloor>"

text \<open>The elapsed time rounded to the nearest minute, half a minute going up, in
  integer arithmetic on microseconds.\<close>

definition rounded_minutes :: "timestamptz \<Rightarrow> timestamptz \<Rightarrow> int" where
  "rounded_minutes st e = (e - st + 30000000) div 60000000"

text \<open>A stored session whose \<open>end_time\<close> is present ends after it starts and
  carries the rounded minutes as its duration.\<close>

definition duration_consistent :: "study_session \<Rightarrow> bool" where
  "duration_consistent s =
     (case end_time s of
        None \<Rightarrow> True
      | Some e \<Rightarrow> start_time s < e \<and> duration_minutes s = Some (rounded_minutes (start_time s) e))"

text \<open>The number of an owner's tasks, and of the completed ones among them.\<close>

definition total_count :: "database \<Rightarrow> uuid \<Rightarrow> int" where
  "total_count db owner = int (length (filter (\<lambda>t. task_user_id t = owner) (tasks db)))"

definition completed_count :: "database \<Rightarrow> uuid \<Rightarrow> int" where
  "completed_count db owner =
     int (length (filter (\<lambda>t. task_user_id t = owner \<and> is_completed t) (tasks db)))"

text \<open>The sessions of an owner that have an \<open>end_time\<close>.\<close>

definition ended_sessions_of :: "database \<Rightarrow> uuid \<Rightarrow> study_session list" where
  "ended_sessions_of db owner =
     filter (\<lambda>s. user_id s = owner \<and> end_time s \<noteq> None) (study_sessions db)"

text \<open>The calendar day of a timestamp, in UTC; the owner studied on a day when one
  of the owner's ended sessions started on it.\<close>

definition utc_day :: "timestamptz \<Rightarrow> date" where
  "utc_day ts = ts div 86400000000"

definition studied_on :: "database \<Rightarrow> uuid \<Rightarrow> date \<Rightarrow> bool" where
  "studied_on db owner day \<longleftrightarrow>
     (\<exists>s \<in> set (ended_sessions_of db owner). utc_day (start_time s) = day)"

text \<open>Text of ASCII characters, the character NUL apart, which a text column
  cannot hold.\<close>

definition ascii_text :: "string \<Rightarrow> bool" where
  "ascii_text t \<longleftrightarrow> list_all (\<lambda>c. 0 < (of_char c :: nat) \<and> (of_char c :: nat) < 128) t"

text \<open>The principal owns the session with this id; the table holds this tag for
  this session.\<close>

definition owns_session :: "environment \<Rightarrow> database \<Rightarrow> uuid \<Rightarrow> bool" where
  "owns_session ctx db sessionId \<longleftrightarrow>
     (\<exists>s \<in> set (study_sessions db). sess_id s = sessionId \<and> Some (user_id s) = auth_uid ctx)"

definition stored_tag :: "study_session_tag list \<Rightarrow> uuid \<Rightarrow> string \<Rightarrow> bool" where
  "stored_tag tbl sessionId t \<longleftrightarrow> (\<exists>r \<in> set tbl. session_id r = sessionId \<and> tag r = t)"

text \<open>A task is completed exactly when it carries a \<open>completed_at\<close>.\<close>

definition completion_consistent :: "task \<Rightarrow> bool" where
  "completion_consistent t \<longleftrightarrow> (is_completed t \<longleftrightarrow> completed_at t \<noteq> None)"

text \<open>Every session with this id, and every task with this id, is the owner's.\<close>

definition session_belongs_to :: "database \<Rightarrow> uuid \<Rightarrow> uuid \<Rightarrow> bool" where
  "session_belongs_to db sid owner \<longleftrightarrow>
     (\<forall>s \<in> set (study_sessions db). sess_id s = sid \<longrightarrow> user_id s = owner)"

definition task_belongs_to :: "database \<Rightarrow> uuid \<Rightarrow> uuid \<Rightarrow> bool" where
  "task_belongs_to db tid owner \<longleftrightarrow>
     (\<forall>t \<in> set (tasks db). task_id t = tid \<longrightarrow> task_user_id t = owner)"

subsection \<open>Sample data\<close>

text \<open>A request of principal \<open>who\<close> at instant \<open>t\<close> on both clocks.\<close>

definition at_time :: "uuid \<Rightarrow> timestamptz \<Rightarrow> environment" where
  "at_time who t =
     \<lparr> auth_uid = Some who, NOW = t, new_Date = t,
       uuid_generate_v4 = (\<lambda>k. ''row-'' @ replicate k (CHR ''i'')) \<rparr>"

definition empty_database :: database where
  "empty_database = \<lparr> study_sessions = [], study_session_tags = [], tasks = [] \<rparr>"

definition minutes :: "int \<Rightarrow> int" where
  "minutes n = n * 60000000"

text \<open>2025-01-01T10:00:00Z.\<close>

definition ten_o_clock :: timestamptz where
  "ten_o_clock = 1735725600000000"

text \<open>A session of one hundred seconds, created already ended.\<close>

definition hundred_seconds :: StudySessionInsert where
  "hundred_seconds =
     \<lparr> ins_user_id = ''U'', ins_session_type = ''stopwatch'', ins_start_time = 0,
       ins_end_time = Some 100000000, ins_target_duration_minutes = None,
       ins_session_notes = None, ins_mood_rating = None, ins_productivity_rating = None \<rparr>"

text \<open>An active pomodoro session \<open>S\<close> of owner \<open>U\<close>, started at ten o'clock.\<close>

definition pomodoro :: study_session where
  "pomodoro =
     \<lparr> sess_id = ''S'', user_id = ''U'', session_type = ''pomodoro'',
       start_time = ten_o_clock, end_time = None, duration_minutes = None,
       target_duration_minutes = Some 25, session_notes = None, mood_rating = None,
       productivity_rating = None, ai_feedback = None, ai_feedback_generated_at = None,
       google_calendar_event_id = None, created_at = ten_o_clock, updated_at = ten_o_clock \<rparr>"

definition pomodoro_db :: database where
  "pomodoro_db = empty_database\<lparr>study_sessions := [pomodoro]\<rparr>"

definition mood_4 :: endData where
  "mood_4 = \<lparr> end_mood_rating = Some 4, end_productivity_rating = None, end_session_notes = None \<rparr>"

text \<open>The pomodoro session ended by its owner at 10:25, and ended again at 10:50
  with the same data.\<close>

definition ended_once :: database where
  "ended_once = snd (endSession (at_time ''U'' (ten_o_clock + minutes 25)) pomodoro_db ''S'' (Some mood_4))"

definition ended_twice :: database where
  "ended_twice = snd (endSession (at_time ''U'' (ten_o_clock + minutes 50)) ended_once ''S'' (Some mood_4))"

text \<open>An ended 25-minute session of \<open>who\<close>, started \<open>k\<close> days before ten o'clock of
  2025-01-01, and a session of \<open>who\<close> started then and still active.\<close>

definition studied_days_ago :: "uuid \<Rightarrow> nat \<Rightarrow> study_session" where
  "studied_days_ago who k =
     pomodoro\<lparr> sess_id := ''S'' @ replicate k (CHR ''-''), user_id := who,
       start_time := ten_o_clock - days (int k),
       end_time := Some (ten_o_clock - days (int k) + minutes 25),
       duration_minutes := Some 25 \<rparr>"

definition active_days_ago :: "uuid \<Rightarrow> nat \<Rightarrow> study_session" where
  "active_days_ago who k =
     pomodoro\<lparr> sess_id := ''A'' @ replicate k (CHR ''-''), user_id := who,
       start_time := ten_o_clock - days (int k) \<rparr>"

text \<open>Owner \<open>U\<close> with ended sessions today, yesterday and the day before; three
  days ago \<open>U\<close> has only a session that never ended, and another owner \<open>V\<close> an
  ended one.\<close>

definition three_days_db :: database where
  "three_days_db =
     empty_database\<lparr>study_sessions :=
       map (studied_days_ago ''U'') [0, 1, 2] @
       [active_days_ago ''U'' 3, (studied_days_ago ''V'' 3)\<lparr>sess_id := ''V---''\<rparr>]\<rparr>"

text \<open>Owner \<open>U\<close> with ended sessions on the five days before today; today \<open>U\<close> has
  only an active session, and \<open>V\<close> an ended one.\<close>

definition not_today_db :: database where
  "not_today_db =
     empty_database\<lparr>study_sessions :=
       [active_days_ago ''U'' 0, (studied_days_ago ''V'' 0)\<lparr>sess_id := ''V''\<rparr>] @
       map (studied_days_ago ''U'') [1, 2, 3, 4, 5]\<rparr>"

text \<open>Three tasks of owner \<open>U\<close>, one of them completed.\<close>

definition sample_task :: "uuid \<Rightarrow> uuid \<Rightarrow> bool \<Rightarrow> task" where
  "sample_task tid who done =
     \<lparr> task_id = tid, task_user_id = who, task_session_id = None, title = ''read chapter'',
       description = None, is_completed = done,
       completed_at = (if done then Some ten_o_clock else None), priority = 0, due_date = None,
       task_created_at = ten_o_clock, task_updated_at = ten_o_clock, order_index = 0 \<rparr>"

definition three_tasks_db :: database where
  "three_tasks_db =
     empty_database\<lparr>tasks := [sample_task ''T1'' ''U'' True, sample_task ''T2'' ''U'' False,
                               sample_task ''T3'' ''U'' False]\<rparr>"

text \<open>Twelve ended sessions of owner \<open>U\<close>, one a day; options that carry an
  offset and nothing else.\<close>

definition twelve_days_db :: database where
  "twelve_days_db = empty_database\<lparr>study_sessions := map (studied_days_ago ''U'') [0, 1, 2, 3, 4, 5, 6, 7, 8, 9, 10, 11]\<rparr>"

definition only_offset :: "int \<Rightarrow> session_options" where
  "only_offset k =
     \<lparr> limit = None, offset = Some k, orderBy = None, orderDirection = None, dateRange = None \<rparr>"

text \<open>The data of a new task, and the update that marks a task completed.\<close>

definition read_chapter :: TaskInsert where
  "read_chapter =
     \<lparr> ti_user_id = ''U'', ti_session_id = None, ti_title = ''read chapter'',
       ti_description = None, ti_priority = None, ti_due_date = None, ti_order_index = None,
       ti_is_completed = None, ti_completed_at = None \<rparr>"

definition mark_completed :: TaskUpdate where
  "mark_completed = no_task_update\<lparr>tu_is_completed := SetTo True\<rparr>"

text \<open>Owner \<open>U\<close>'s pomodoro session with a tag, and a task of \<open>U\<close>'s.\<close>

definition shared_db :: database where
  "shared_db =
     pomodoro_db\<lparr> study_session_tags :=
                    [\<lparr>tag_id = ''G'', session_id = ''S'', tag = ''math'', tag_created_at = ten_o_clock\<rparr>],
                  tasks := [sample_task ''T1'' ''U'' False] \<rparr>"

section \<open>Proofs\<close>

subsection \<open>Rounding\<close>

lemma div_round_general:
  fixes n m h :: int
  assumes "0 < m" "0 \<le> h" "h < m"
  shows "(n + h) div m = n div m + (if m - h \<le> n mod m then 1 else 0)"
proof -
  define q r where "q = n div m" and "r = n mod m"
  have n: "n = q * m + r" and r: "0 \<le> r" "r < m"
    using assms by (simp_all add: q_def r_def)
  have "(n + h) div m = q + (r + h) div m"
    using assms by (simp add: n add.assoc)
  moreover have "(r + h) div m = (if m - h \<le> r then 1 else 0)"
  proof (cases "m - h \<le> r")
    case True
    have "(r + h) div m = (r + h - m) div m + 1"
      using assms by (metis diff_add_cancel div_add_self2 less_irrefl)
    moreover have "(r + h - m) div m = 0"
      using True r assms by (intro div_pos_pos_trivial) auto
    ultimately show ?thesis using True by simp
  next
    case False
    then have "(r + h) div m = 0"
      using r assms by (intro div_pos_pos_trivial) auto
    then show ?thesis using False by simp
  qed
  ultimately show ?thesis by (simp add: q_def r_def)
qed

lemma numeric_round_minutes:
  assumes "0 \<le> n"
  shows "numeric_round (EXTRACT_EPOCH n / 60) = (n + 30000000) div 60000000"
proof -
  have "EXTRACT_EPOCH n / 60 + 1 / 2 = (of_int (n + 30000000) :: rat) / of_int 60000000"
    by (simp add: EXTRACT_EPOCH_def field_simps)
  then have "\<lfloor>EXTRACT_EPOCH n / 60 + 1 / 2\<rfloor> = (n + 30000000) div 60000000"
    by (simp only: floor_divide_of_int_eq)
  moreover have "0 \<le> EXTRACT_EPOCH n / 60"
    using assms by (simp add: EXTRACT_EPOCH_def)
  ultimately show ?thesis
    by (simp add: numeric_round_def)
qed

lemma spec_duration_minutes_div: "spec_duration_minutes st e = (e - st) div 60000000"
proof -
  have "EXTRACT_EPOCH (e - st) / 60 = (of_int (e - st) :: rat) / of_int 60000000"
    by (simp add: EXTRACT_EPOCH_def)
  then show ?thesis
    unfolding spec_duration_minutes_def by (simp only: floor_divide_of_int_eq)
qed

text \<open>The stored duration is the floor of the specification, plus one when the
  seconds left over reach thirty.\<close>

lemma rounded_minutes_floor:
  "rounded_minutes st e =
     spec_duration_minutes st e + (if 30000000 \<le> (e - st) mod 60000000 then 1 else 0)"
  unfolding rounded_minutes_def spec_duration_minutes_div
  using div_round_general [of 60000000 30000000 "e - st"] by simp

subsection \<open>Duration of a session\<close>

lemma calculate_session_duration_Inr:
  assumes "calculate_session_duration r = Inr r'"
  shows "end_time r' = end_time r" "start_time r' = start_time r"
    "\<And>e. end_time r = Some e \<Longrightarrow> start_time r < e \<Longrightarrow>
       duration_minutes r' = Some (rounded_minutes (start_time r) e)"
  using assms
  by (auto simp: calculate_session_duration_def numeric_to_int4_def Let_def
      numeric_round_minutes rounded_minutes_def split: option.splits sum.splits if_splits)

lemma insert_row_consistent:
  assumes "insert_study_session_row ctx r = Inr r'"
  shows "duration_consistent r'"
  using assms calculate_session_duration_Inr [of r]
  by (auto simp: insert_study_session_row_def duration_consistent_def study_sessions_checks_def
      valid_duration_def split: option.splits sum.splits if_splits)

lemma update_row_consistent:
  assumes "update_study_session_row ctx u OLD = Inr r'"
  shows "duration_consistent r'"
  using assms calculate_session_duration_Inr [of "set_columns u OLD"]
  by (auto simp: update_study_session_row_def duration_consistent_def study_sessions_checks_def
      valid_duration_def Let_def update_updated_at_column_def
      split: option.splits sum.splits if_splits)

lemma createSession_consistent:
  assumes "\<forall>s \<in> set (study_sessions db). duration_consistent s"
  shows "\<forall>s \<in> set (study_sessions (snd (createSession ctx db d))). duration_consistent s"
  using assms insert_row_consistent [of ctx "new_study_session ctx d"]
  by (auto simp: createSession_def split: sum.splits)

lemma updateSession_consistent:
  assumes "\<forall>s \<in> set (study_sessions db). duration_consistent s"
  shows "\<forall>s \<in> set (study_sessions (snd (updateSession ctx db sid u))). duration_consistent s"
proof (cases "filter (\<lambda>s. study_sessions_policy ctx s \<and> sess_id s = sid) (study_sessions db)")
  case Nil
  then show ?thesis using assms by (simp add: updateSession_def)
next
  case outer: (Cons OLD rest)
  show ?thesis
  proof (cases rest)
    case Nil
    show ?thesis
    proof (cases "update_study_session_row ctx u OLD")
      case (Inl err)
      then show ?thesis using assms outer Nil by (simp add: updateSession_def)
    next
      case (Inr r)
      then have "duration_consistent r" by (rule update_row_consistent)
      then show ?thesis using assms outer Nil Inr by (auto simp: updateSession_def)
    qed
  next
    case (Cons a list)
    then show ?thesis using assms outer by (simp add: updateSession_def)
  qed
qed

lemma deleteSession_consistent:
  assumes "\<forall>s \<in> set (study_sessions db). duration_consistent s"
  shows "\<forall>s \<in> set (study_sessions (snd (deleteSession ctx db sid))). duration_consistent s"
  using assms by (simp add: deleteSession_def Let_def)

lemmas session_eval =
  at_time_def empty_database_def createSession_def insert_study_session_row_def
  new_study_session_def study_sessions_varchar_def calculate_session_duration_def
  numeric_to_int4_def numeric_round_minutes study_sessions_policy_def
  study_sessions_checks_def rating_check_def valid_duration_def Let_def
  updateSession_def update_study_session_row_def set_columns_def
  update_updated_at_column_def endSession_def end_updates_def optional_field_def
  pomodoro_db_def pomodoro_def ten_o_clock_def minutes_def mood_4_def

text \<open>
  C1 (as stated): the stored duration is the floor of the elapsed seconds over 60.
  A session created with \<open>start_time\<close> 0 and \<open>end_time\<close> one hundred seconds later
  is stored with \<open>duration_minutes = 2\<close>, where the floor is 1: the trigger
  assigns the quotient to an integer column, which rounds to the nearest integer.
\<close>

theorem duration_floor_counterexample:
  "fst (createSession (at_time ''U'' 200000000) empty_database hundred_seconds) =
     Inr \<lparr> sess_id = ''row-'', user_id = ''U'', session_type = ''stopwatch'', start_time = 0,
           end_time = Some 100000000, duration_minutes = Some 2, target_duration_minutes = None,
           session_notes = None, mood_rating = None, productivity_rating = None,
           ai_feedback = None, ai_feedback_generated_at = None, google_calendar_event_id = None,
           created_at = 200000000, updated_at = 200000000 \<rparr> \<and>
   spec_duration_minutes 0 100000000 = 1"
  by (simp add: session_eval hundred_seconds_def spec_duration_minutes_div)

text \<open>
  C1 (amended): in every stored session whose \<open>end_time\<close> is present,
  \<open>duration_minutes\<close> is the elapsed time rounded to the nearest whole minute
  (thirty seconds or more round up), and \<open>end_time\<close> is later than \<open>start_time\<close>.
  Every write keeps this: creating a session (with or without an \<open>end_time\<close>),
  updating one, ending one, deleting one.
\<close>

theorem stored_duration_is_rounded_minutes:
  assumes "\<forall>s \<in> set (study_sessions db). duration_consistent s"
  shows "(\<forall>s \<in> set (study_sessions (snd (createSession ctx db d))). duration_consistent s) \<and>
         (\<forall>s \<in> set (study_sessions (snd (updateSession ctx db sid u))). duration_consistent s) \<and>
         (\<forall>s \<in> set (study_sessions (snd (endSession ctx db sid ed))). duration_consistent s) \<and>
         (\<forall>s \<in> set (study_sessions (snd (deleteSession ctx db sid))). duration_consistent s)"
  using createSession_consistent [OF assms] updateSession_consistent [OF assms]
    deleteSession_consistent [OF assms]
  unfolding endSession_def by blast

text \<open>
  C1, witness: the active pomodoro session satisfies the hypothesis; ended 25
  minutes and 40 seconds after its start it is stored with 26 minutes.
\<close>

theorem stored_duration_is_rounded_minutes_witness:
  "list_all duration_consistent (study_sessions pomodoro_db) \<and>
   list_all duration_consistent
     (study_sessions
        (snd (endSession (at_time ''U'' (ten_o_clock + 1540000000)) pomodoro_db ''S'' None))) \<and>
   map duration_minutes
     (study_sessions
        (snd (endSession (at_time ''U'' (ten_o_clock + 1540000000)) pomodoro_db ''S'' None))) =
     [Some 26]"
proof -
  have h: "\<forall>s \<in> set (study_sessions pomodoro_db). duration_consistent s"
    by (simp add: pomodoro_db_def pomodoro_def duration_consistent_def)
  have "map duration_minutes
     (study_sessions
        (snd (endSession (at_time ''U'' (ten_o_clock + 1540000000)) pomodoro_db ''S'' None))) =
     [Some 26]"
    by (simp add: session_eval)
  with h stored_duration_is_rounded_minutes [OF h, of "at_time ''U'' (ten_o_clock + 1540000000)"
      hundred_seconds "''S''" "end_updates (at_time ''U'' (ten_o_clock + 1540000000)) None" None]
  show ?thesis unfolding list_all_iff by blast
qed

subsection \<open>Ending a session\<close>

lemma filter_map_replace:
  assumes "P r"
  shows "filter P (map (\<lambda>s. if P s then r else s) xs) = map (\<lambda>_. r) (filter P xs)"
  using assms by (induction xs) auto

lemma updateSession_Inr:
  assumes "updateSession ctx db sid u = (Inr r, db')"
  obtains OLD where
    "filter (\<lambda>s. study_sessions_policy ctx s \<and> sess_id s = sid) (study_sessions db) = [OLD]"
    "update_study_session_row ctx u OLD = Inr r"
    "db' = db\<lparr>study_sessions :=
              map (\<lambda>s. if study_sessions_policy ctx s \<and> sess_id s = sid then r else s)
                (study_sessions db)\<rparr>"
  using assms
  by (auto simp: updateSession_def split: list.splits sum.splits)

lemma update_study_session_row_Inr:
  assumes "update_study_session_row ctx u OLD = Inr r"
  shows "sess_id r = sess_id OLD" "user_id r = user_id OLD" "start_time r = start_time OLD"
    "end_time r = apply_patch (upd_end_time u) (end_time OLD)"
    "study_sessions_policy ctx r"
  using assms
  by (auto simp: update_study_session_row_def Let_def calculate_session_duration_def
      update_updated_at_column_def set_columns_def study_sessions_policy_def
      split: if_splits sum.splits option.splits)

lemma updateSession_read_back:
  assumes "updateSession ctx db sid u = (Inr r, db')"
  shows "getSession ctx db' sid = Inr r"
proof -
  from assms obtain OLD where
    f: "filter (\<lambda>s. study_sessions_policy ctx s \<and> sess_id s = sid) (study_sessions db) = [OLD]"
    and u: "update_study_session_row ctx u OLD = Inr r"
    and db': "db' = db\<lparr>study_sessions :=
              map (\<lambda>s. if study_sessions_policy ctx s \<and> sess_id s = sid then r else s)
                (study_sessions db)\<rparr>"
    by (rule updateSession_Inr)
  from f have "OLD \<in> set (filter (\<lambda>s. study_sessions_policy ctx s \<and> sess_id s = sid) (study_sessions db))"
    by simp
  then have "sess_id OLD = sid" by simp
  with update_study_session_row_Inr [OF u]
  have P: "study_sessions_policy ctx r \<and> sess_id r = sid" by simp
  show ?thesis
    unfolding getSession_def db'
    using filter_map_replace [of "\<lambda>s. study_sessions_policy ctx s \<and> sess_id s = sid" r, OF P]
    by (simp add: f single_def)
qed

lemma getSession_same_principal:
  assumes "auth_uid c2 = auth_uid c1"
  shows "getSession c2 db sid = getSession c1 db sid"
  using assms by (simp add: getSession_def study_sessions_policy_def)

lemma endSession_Inr:
  assumes "endSession ctx db sid d = (Inr r, db')"
  shows "end_time r = Some (new_Date ctx)"
    "duration_minutes r = Some (rounded_minutes (start_time r) (new_Date ctx))"
    "getSession ctx db' sid = Inr r"
    "\<And>OLD. getSession ctx db sid = Inr OLD \<Longrightarrow> start_time r = start_time OLD"
proof -
  from assms have upd: "updateSession ctx db sid (end_updates ctx d) = (Inr r, db')"
    by (simp add: endSession_def)
  then obtain OLD where
    f: "filter (\<lambda>s. study_sessions_policy ctx s \<and> sess_id s = sid) (study_sessions db) = [OLD]"
    and u: "update_study_session_row ctx (end_updates ctx d) OLD = Inr r"
    by (rule updateSession_Inr)
  show e: "end_time r = Some (new_Date ctx)"
    using update_study_session_row_Inr(4) [OF u] by (simp add: end_updates_def)
  have "duration_consistent r" using u by (rule update_row_consistent)
  with e show "duration_minutes r = Some (rounded_minutes (start_time r) (new_Date ctx))"
    by (simp add: duration_consistent_def)
  show "getSession ctx db' sid = Inr r" using upd by (rule updateSession_read_back)
  show "start_time r = start_time OLD'" if "getSession ctx db sid = Inr OLD'" for OLD'
    using that f update_study_session_row_Inr(3) [OF u] by (simp add: getSession_def single_def)
qed

text \<open>
  C5 (amended): every successful call of \<open>endSession\<close> stores the clock reading of
  that call as \<open>end_time\<close> and the duration computed from it, whether or not the
  session had ended before. Of two calls by the same principal with the same
  data, the second overwrites the \<open>end_time\<close> and the duration of the first;
  the stored \<open>end_time\<close> is the same after both exactly when both calls read the
  same clock instant. \<open>getSession\<close> reads back what each call stored.
\<close>

theorem end_twice_overwrites:
  assumes "endSession c1 db sid d = (Inr s1, db1)"
    and "endSession c2 db1 sid d = (Inr s2, db2)"
    and "auth_uid c2 = auth_uid c1"
  shows "end_time s1 = Some (new_Date c1) \<and>
         duration_minutes s1 = Some (rounded_minutes (start_time s1) (new_Date c1)) \<and>
         getSession c1 db1 sid = Inr s1 \<and>
         end_time s2 = Some (new_Date c2) \<and>
         duration_minutes s2 = Some (rounded_minutes (start_time s1) (new_Date c2)) \<and>
         getSession c2 db2 sid = Inr s2 \<and>
         (end_time s2 = end_time s1 \<longleftrightarrow> new_Date c2 = new_Date c1)"
proof -
  note first = endSession_Inr [OF assms(1)]
  note second = endSession_Inr [OF assms(2)]
  have "getSession c2 db1 sid = Inr s1"
    using first(3) getSession_same_principal [OF assms(3)] by simp
  then have "start_time s2 = start_time s1" by (rule second(4))
  with first second show ?thesis by simp
qed

lemma ended_once_eval:
  "ended_once = pomodoro_db\<lparr>study_sessions :=
     [pomodoro\<lparr>end_time := Some (ten_o_clock + minutes 25), duration_minutes := Some 25,
        mood_rating := Some 4, updated_at := ten_o_clock + minutes 25\<rparr>]\<rparr>"
  by (simp add: ended_once_def session_eval)

text \<open>
  C5 (as stated): ending twice with the same data leaves the same \<open>end_time\<close> and
  duration. The pomodoro session ended at 10:25 is stored with that \<open>end_time\<close>
  and 25 minutes; ended again at 10:50 with the same data, it is stored with
  \<open>end_time\<close> 10:50 and 50 minutes.
\<close>

theorem end_twice_counterexample:
  "map end_time (study_sessions ended_once) = [Some 1735727100000000] \<and>
   map duration_minutes (study_sessions ended_once) = [Some 25] \<and>
   map end_time (study_sessions ended_twice) = [Some 1735728600000000] \<and>
   map duration_minutes (study_sessions ended_twice) = [Some 50]"
  by (simp add: ended_twice_def ended_once_eval session_eval)

text \<open>
  C5, witness: the two calls on the pomodoro session, at 10:25 and at 10:50.
\<close>

theorem end_twice_overwrites_witness:
  "fst (endSession (at_time ''U'' (ten_o_clock + minutes 25)) pomodoro_db ''S'' (Some mood_4)) =
     Inr (pomodoro\<lparr>end_time := Some (ten_o_clock + minutes 25), duration_minutes := Some 25,
        mood_rating := Some 4, updated_at := ten_o_clock + minutes 25\<rparr>) \<and>
   fst (endSession (at_time ''U'' (ten_o_clock + minutes 50)) ended_once ''S'' (Some mood_4)) =
     Inr (pomodoro\<lparr>end_time := Some (ten_o_clock + minutes 50), duration_minutes := Some 50,
        mood_rating := Some 4, updated_at := ten_o_clock + minutes 50\<rparr>) \<and>
   auth_uid (at_time ''U'' (ten_o_clock + minutes 50)) = auth_uid (at_time ''U'' (ten_o_clock + minutes 25)) \<and>
   getSession (at_time ''U'' (ten_o_clock + minutes 50)) ended_twice ''S'' = 
     Inr (pomodoro\<lparr>end_time := Some (ten_o_clock + minutes 50), duration_minutes := Some 50,
        mood_rating := Some 4, updated_at := ten_o_clock + minutes 50\<rparr>)"
proof -
  let ?c1 = "at_time ''U'' (ten_o_clock + minutes 25)"
  let ?c2 = "at_time ''U'' (ten_o_clock + minutes 50)"
  let ?s1 = "pomodoro\<lparr>end_time := Some (ten_o_clock + minutes 25), duration_minutes := Some 25,
        mood_rating := Some 4, updated_at := ten_o_clock + minutes 25\<rparr>"
  let ?s2 = "pomodoro\<lparr>end_time := Some (ten_o_clock + minutes 50), duration_minutes := Some 50,
        mood_rating := Some 4, updated_at := ten_o_clock + minutes 50\<rparr>"
  have a: "endSession ?c1 pomodoro_db ''S'' (Some mood_4) = (Inr ?s1, ended_once)"
    by (simp add: ended_once_def session_eval)
  have b: "endSession ?c2 ended_once ''S'' (Some mood_4) = (Inr ?s2, ended_twice)"
    by (simp add: ended_twice_def ended_once_eval session_eval)
  have c: "auth_uid ?c2 = auth_uid ?c1" by (simp add: at_time_def)
  from end_twice_overwrites [OF a b c] a b c show ?thesis by simp
qed

subsection \<open>Study streak\<close>

lemma DATE_utc_day: "DATE ts = utc_day ts"
  by (simp add: DATE_def utc_day_def)

lemma session_exists_on_studied_on:
  "session_exists_on (study_sessions db) owner day \<longleftrightarrow> studied_on db owner day"
  by (auto simp: session_exists_on_def studied_on_def ended_sessions_of_def DATE_utc_day)

lemma streak_loop_count:
  assumes "\<forall>k<n. session_exists_on rows u (d - int k)"
    and "\<not> session_exists_on rows u (d - int n)"
  shows "streak_loop rows u acc d = acc + int n"
  using assms
proof (induction n arbitrary: acc d)
  case 0
  then show ?case by (simp add: streak_loop.simps)
next
  case (Suc n)
  have today: "session_exists_on rows u d" using Suc.prems(1) by force
  have "\<forall>k<n. session_exists_on rows u (d - 1 - int k)"
  proof (intro allI impI)
    fix k assume "k < n"
    then have "Suc k < Suc n" by simp
    with Suc.prems(1) have ex: "session_exists_on rows u (d - int (Suc k))" by blast
    have eq: "d - int (Suc k) = d - 1 - int k" by simp
    show "session_exists_on rows u (d - 1 - int k)" using ex unfolding eq .
  qed
  moreover have "\<not> session_exists_on rows u (d - 1 - int n)"
  proof -
    have eq: "d - int (Suc n) = d - 1 - int n" by simp
    show ?thesis using Suc.prems(2) unfolding eq .
  qed
  ultimately have "streak_loop rows u (acc + 1) (d - 1) = acc + 1 + int n"
    by (rule Suc.IH)
  then show ?case using today by (subst streak_loop.simps) simp
qed

lemma study_streak_count:
  assumes "\<forall>k<n. studied_on db owner (utc_day (NOW ctx) - int k)"
    and "\<not> studied_on db owner (utc_day (NOW ctx) - int n)"
  shows "getStudyStreak ctx db owner = Inr (int n)"
  using assms streak_loop_count [of n "study_sessions db" owner "CURRENT_DATE ctx" 0]
  by (simp add: getStudyStreak_def get_study_streak_def or_zero_def CURRENT_DATE_def
      DATE_utc_day session_exists_on_studied_on)

text \<open>
  C2: \<open>getStudyStreak\<close> counts the consecutive calendar days, walking back from
  the current day, on which the owner has an ended session (one of the owner's
  sessions with an \<open>end_time\<close> whose \<open>start_time\<close> falls on that day): when the
  owner studied on each of the \<open>n\<close> days ending today and not on the day before
  them, it returns \<open>n\<close>. In particular, with ended sessions today, yesterday and
  the day before but none three days ago it returns 3, and with none today it
  returns 0, whatever the earlier days hold. Sessions still active and sessions
  of other owners do not count.
\<close>

theorem study_streak_counts_back_from_today:
  "((\<forall>k<n. studied_on db owner (utc_day (NOW ctx) - int k)) \<and>
    \<not> studied_on db owner (utc_day (NOW ctx) - int n)
      \<longrightarrow> getStudyStreak ctx db owner = Inr (int n)) \<and>
   (studied_on db owner (utc_day (NOW ctx)) \<and>
    studied_on db owner (utc_day (NOW ctx) - 1) \<and>
    studied_on db owner (utc_day (NOW ctx) - 2) \<and>
    \<not> studied_on db owner (utc_day (NOW ctx) - 3)
      \<longrightarrow> getStudyStreak ctx db owner = Inr 3) \<and>
   (\<not> studied_on db owner (utc_day (NOW ctx))
      \<longrightarrow> getStudyStreak ctx db owner = Inr 0)"
proof (intro conjI impI)
  assume "(\<forall>k<n. studied_on db owner (utc_day (NOW ctx) - int k)) \<and>
    \<not> studied_on db owner (utc_day (NOW ctx) - int n)"
  then show "getStudyStreak ctx db owner = Inr (int n)"
    using study_streak_count [of n db owner ctx] by blast
next
  assume a: "studied_on db owner (utc_day (NOW ctx)) \<and>
    studied_on db owner (utc_day (NOW ctx) - 1) \<and>
    studied_on db owner (utc_day (NOW ctx) - 2) \<and>
    \<not> studied_on db owner (utc_day (NOW ctx) - 3)"
  have "\<forall>k<3. studied_on db owner (utc_day (NOW ctx) - int k)"
  proof (intro allI impI)
    fix k :: nat assume "k < 3"
    then consider "k = 0" | "k = 1" | "k = 2" by linarith
    then show "studied_on db owner (utc_day (NOW ctx) - int k)"
      using a by cases simp_all
  qed
  then show "getStudyStreak ctx db owner = Inr 3"
    using a study_streak_count [of 3 db owner ctx] by simp
next
  assume "\<not> studied_on db owner (utc_day (NOW ctx))"
  then show "getStudyStreak ctx db owner = Inr 0"
    using study_streak_count [of 0 db owner ctx] by simp
qed

lemmas streak_eval =
  studied_on_def ended_sessions_of_def utc_day_def three_days_db_def not_today_db_def
  studied_days_ago_def active_days_ago_def pomodoro_def empty_database_def at_time_def
  ten_o_clock_def days_def minutes_def

text \<open>
  C2, witness: ended sessions on days D, D-1 and D-2 give 3, although on D-3 the
  owner has an active session and another owner an ended one; ended sessions on
  days D-1 to D-5 give 0, the owner's only session of day D being active and the
  ended one of day D another owner's.
\<close>

theorem study_streak_counts_back_from_today_witness:
  "studied_on three_days_db ''U'' (utc_day (NOW (at_time ''U'' ten_o_clock))) \<and>
   studied_on three_days_db ''U'' (utc_day (NOW (at_time ''U'' ten_o_clock)) - 1) \<and>
   studied_on three_days_db ''U'' (utc_day (NOW (at_time ''U'' ten_o_clock)) - 2) \<and>
   \<not> studied_on three_days_db ''U'' (utc_day (NOW (at_time ''U'' ten_o_clock)) - 3) \<and>
   getStudyStreak (at_time ''U'' ten_o_clock) three_days_db ''U'' = Inr 3 \<and>
   \<not> studied_on not_today_db ''U'' (utc_day (NOW (at_time ''U'' ten_o_clock))) \<and>
   studied_on not_today_db ''U'' (utc_day (NOW (at_time ''U'' ten_o_clock)) - 1) \<and>
   studied_on not_today_db ''U'' (utc_day (NOW (at_time ''U'' ten_o_clock)) - 2) \<and>
   studied_on not_today_db ''U'' (utc_day (NOW (at_time ''U'' ten_o_clock)) - 3) \<and>
   studied_on not_today_db ''U'' (utc_day (NOW (at_time ''U'' ten_o_clock)) - 4) \<and>
   studied_on not_today_db ''U'' (utc_day (NOW (at_time ''U'' ten_o_clock)) - 5) \<and>
   getStudyStreak (at_time ''U'' ten_o_clock) not_today_db ''U'' = Inr 0 \<and>
   map user_id (study_sessions not_today_db) = [''U'', ''V'', ''U'', ''U'', ''U'', ''U'', ''U''] \<and>
   map end_time (take 2 (study_sessions not_today_db)) = [None, Some (ten_o_clock + minutes 25)]"
proof -
  let ?ctx = "at_time ''U'' ten_o_clock"
  have three: "studied_on three_days_db ''U'' (utc_day (NOW ?ctx)) \<and>
      studied_on three_days_db ''U'' (utc_day (NOW ?ctx) - 1) \<and>
      studied_on three_days_db ''U'' (utc_day (NOW ?ctx) - 2) \<and>
      \<not> studied_on three_days_db ''U'' (utc_day (NOW ?ctx) - 3)"
    by (simp add: streak_eval)
  have none: "\<not> studied_on not_today_db ''U'' (utc_day (NOW ?ctx))"
    by (simp add: streak_eval)
  have before: "studied_on not_today_db ''U'' (utc_day (NOW ?ctx) - 1) \<and>
      studied_on not_today_db ''U'' (utc_day (NOW ?ctx) - 2) \<and>
      studied_on not_today_db ''U'' (utc_day (NOW ?ctx) - 3) \<and>
      studied_on not_today_db ''U'' (utc_day (NOW ?ctx) - 4) \<and>
      studied_on not_today_db ''U'' (utc_day (NOW ?ctx) - 5)"
    by (simp add: streak_eval)
  have rows: "map user_id (study_sessions not_today_db) = [''U'', ''V'', ''U'', ''U'', ''U'', ''U'', ''U''] \<and>
      map end_time (take 2 (study_sessions not_today_db)) = [None, Some (ten_o_clock + minutes 25)]"
    by (simp add: streak_eval)
  from three none before rows
    study_streak_counts_back_from_today [of 3 three_days_db "''U''" ?ctx]
    study_streak_counts_back_from_today [of 0 not_today_db "''U''" ?ctx]
  show ?thesis by blast
qed

subsection \<open>Task completion rate\<close>

lemma numeric_round_fraction:
  assumes "0 \<le> a" "0 < b"
  shows "numeric_round (of_int a / of_int b) = (2 * a + b) div (2 * b)"
proof -
  have "of_int a / of_int b + 1 / 2 = (of_int (2 * a + b) :: rat) / of_int (2 * b)"
    using assms by (simp add: field_simps)
  then have "\<lfloor>(of_int a :: rat) / of_int b + 1 / 2\<rfloor> = (2 * a + b) div (2 * b)"
    by (simp only: floor_divide_of_int_eq)
  moreover have "0 \<le> (of_int a :: rat) / of_int b"
    using assms by simp
  ultimately show ?thesis
    by (simp add: numeric_round_def)
qed

lemma completed_le_total: "completed_count db owner \<le> total_count db owner"
proof -
  have "filter (\<lambda>t. task_user_id t = owner \<and> is_completed t) (tasks db) =
        filter is_completed (filter (\<lambda>t. task_user_id t = owner) (tasks db))"
    by (simp add: conj_commute)
  then have "length (filter (\<lambda>t. task_user_id t = owner \<and> is_completed t) (tasks db))
      \<le> length (filter (\<lambda>t. task_user_id t = owner) (tasks db))"
    by (simp only: length_filter_le)
  then show ?thesis
    by (simp add: completed_count_def total_count_def)
qed

lemma rate_formula:
  assumes "total_count db owner \<noteq> 0"
  shows "get_task_completion_rate db owner =
     of_int ((20000 * completed_count db owner + total_count db owner)
                div (2 * total_count db owner)) / 100"
proof -
  let ?c = "completed_count db owner" and ?t = "total_count db owner"
  have t: "0 < ?t" using assms by (simp add: total_count_def)
  have c: "0 \<le> ?c" by (simp add: completed_count_def)
  have "(of_int ?c / of_int ?t) * 100 * 100 = (of_int (10000 * ?c) :: rat) / of_int ?t"
    by simp
  then have "numeric_round ((of_int ?c / of_int ?t) * 100 * 100) =
      (2 * (10000 * ?c) + ?t) div (2 * ?t)"
    using numeric_round_fraction [of "10000 * ?c" ?t] t c by simp
  then show ?thesis
    using assms
    by (simp add: get_task_completion_rate_def COUNT_where_def Let_def ROUND2_def
        total_count_def completed_count_def)
qed

lemma rate_bounds:
  fixes c t :: int
  assumes "0 \<le> c" "c \<le> t" "0 < t"
  shows "0 \<le> (20000 * c + t) div (2 * t)" "(20000 * c + t) div (2 * t) \<le> 10000"
proof -
  show "0 \<le> (20000 * c + t) div (2 * t)"
    using assms by (intro pos_imp_zdiv_nonneg_iff [THEN iffD2]) auto
  have "(20000 * c + t) div (2 * t) \<le> (20000 * t + t) div (2 * t)"
    using assms by (intro zdiv_mono1) auto
  also have "20000 * t + t = t + 10000 * (2 * t)" by simp
  also have "(t + 10000 * (2 * t)) div (2 * t) = t div (2 * t) + 10000"
    using assms by (subst div_mult_self1) auto
  also have "t div (2 * t) = 0"
    using assms by (intro div_pos_pos_trivial) auto
  finally show "(20000 * c + t) div (2 * t) \<le> 10000" by simp
qed

lemma numeric_round_close:
  "\<bar>of_int (numeric_round x) - x\<bar> \<le> 1 / 2"
proof (cases "0 \<le> x")
  case True
  have a: "of_int \<lfloor>x + 1 / 2\<rfloor> \<le> x + 1 / 2"
    by (rule of_int_floor_le)
  have b: "x + 1 / 2 < of_int \<lfloor>x + 1 / 2\<rfloor> + 1"
    using floor_correct [of "x + 1 / 2"] by simp
  have "numeric_round x = \<lfloor>x + 1 / 2\<rfloor>"
    using True by (simp add: numeric_round_def)
  with a b show ?thesis by linarith
next
  case False
  have a: "of_int \<lfloor>- x + 1 / 2\<rfloor> \<le> - x + 1 / 2"
    by (rule of_int_floor_le)
  have b: "- x + 1 / 2 < of_int \<lfloor>- x + 1 / 2\<rfloor> + 1"
    using floor_correct [of "- x + 1 / 2"] by simp
  have "of_int (numeric_round x) = - (of_int \<lfloor>- x + 1 / 2\<rfloor> :: rat)"
    using False by (simp add: numeric_round_def)
  with a b show ?thesis by linarith
qed

lemma ROUND2_close: "\<bar>ROUND2 x - x\<bar> \<le> 1 / 200"
proof -
  define k where "k = numeric_round (x * 100)"
  have b: "\<bar>of_int k - x * 100\<bar> \<le> 1 / 2"
    unfolding k_def by (rule numeric_round_close)
  have "ROUND2 x - x = (of_int k - x * 100) / 100"
    by (simp add: ROUND2_def k_def diff_divide_distrib)
  then have "\<bar>ROUND2 x - x\<bar> = \<bar>of_int k - x * 100\<bar> / 100"
    by (simp only: abs_divide abs_numeral)
  also have "\<dots> \<le> (1 / 2) / 100"
    using b by (rule divide_right_mono) simp
  finally show ?thesis by simp
qed

lemma rate_close:
  assumes "total_count db owner \<noteq> 0"
  shows "\<bar>get_task_completion_rate db owner -
           of_int (completed_count db owner) / of_int (total_count db owner) * 100\<bar> \<le> 1 / 200"
  using assms ROUND2_close [of "of_int (completed_count db owner) / of_int (total_count db owner) * 100"]
  by (simp add: get_task_completion_rate_def COUNT_where_def Let_def total_count_def
      completed_count_def)

text \<open>
  C7: \<open>getTaskCompletionRate\<close> succeeds with the value of
  \<open>get_task_completion_rate\<close>, which lies between 0 and 100. With no task of the
  owner it is 0. Otherwise it is the percentage \<open>completed / total * 100\<close> rounded
  to two decimal places: a whole number of hundredths, namely
  \<open>(20000 * completed + total) div (2 * total)\<close> of them, at most half a hundredth
  away from the percentage. With three tasks of which one is completed it is
  33.33.
\<close>

theorem task_completion_rate_rounded_percentage:
  "getTaskCompletionRate ctx db owner = Inr (get_task_completion_rate db owner) \<and>
   0 \<le> get_task_completion_rate db owner \<and> get_task_completion_rate db owner \<le> 100 \<and>
   (total_count db owner = 0 \<longrightarrow> get_task_completion_rate db owner = 0) \<and>
   (total_count db owner \<noteq> 0 \<longrightarrow>
      get_task_completion_rate db owner =
        of_int ((20000 * completed_count db owner + total_count db owner)
                  div (2 * total_count db owner)) / 100 \<and>
      \<bar>get_task_completion_rate db owner -
         of_int (completed_count db owner) / of_int (total_count db owner) * 100\<bar> \<le> 1 / 200) \<and>
   (total_count db owner = 3 \<and> completed_count db owner = 1 \<longrightarrow>
      get_task_completion_rate db owner = 3333 / 100)"
proof (intro conjI impI)
  show "getTaskCompletionRate ctx db owner = Inr (get_task_completion_rate db owner)"
    by (simp add: getTaskCompletionRate_def or_zero_def)
next
  assume "total_count db owner = 0"
  then show "get_task_completion_rate db owner = 0"
    by (simp add: get_task_completion_rate_def COUNT_where_def total_count_def)
next
  assume "total_count db owner \<noteq> 0"
  then show "get_task_completion_rate db owner =
        of_int ((20000 * completed_count db owner + total_count db owner)
                  div (2 * total_count db owner)) / 100"
    by (rule rate_formula)
next
  assume "total_count db owner \<noteq> 0"
  then show "\<bar>get_task_completion_rate db owner -
         of_int (completed_count db owner) / of_int (total_count db owner) * 100\<bar> \<le> 1 / 200"
    by (rule rate_close)
next
  assume "total_count db owner = 3 \<and> completed_count db owner = 1"
  then show "get_task_completion_rate db owner = 3333 / 100"
    using rate_formula [of db owner] by simp
next
  let ?c = "completed_count db owner" and ?t = "total_count db owner"
  have "0 \<le> get_task_completion_rate db owner \<and> get_task_completion_rate db owner \<le> 100"
  proof (cases "?t = 0")
    case True
    then show ?thesis
      by (simp add: get_task_completion_rate_def COUNT_where_def total_count_def)
  next
    case False
    have t: "0 < ?t" using False by (simp add: total_count_def)
    have c: "0 \<le> ?c" by (simp add: completed_count_def)
    note b = rate_bounds [OF c completed_le_total t]
    have "(0::rat) \<le> of_int ((20000 * ?c + ?t) div (2 * ?t)) / 100"
      using b(1) by simp
    moreover have "of_int ((20000 * ?c + ?t) div (2 * ?t)) / 100 \<le> (100::rat)"
    proof -
      have "(of_int ((20000 * ?c + ?t) div (2 * ?t)) :: rat) \<le> of_int 10000"
        using b(2) by (simp only: of_int_le_iff)
      then show ?thesis by simp
    qed
    ultimately show ?thesis
      using False by (simp add: rate_formula)
  qed
  then show "0 \<le> get_task_completion_rate db owner"
    and "get_task_completion_rate db owner \<le> 100"
    by simp_all
qed

lemmas task_eval = total_count_def completed_count_def three_tasks_db_def sample_task_def
  empty_database_def

text \<open>
  C7, witness: the empty table gives 0; three tasks with one completed give 33.33.
\<close>

theorem task_completion_rate_rounded_percentage_witness:
  "total_count empty_database ''U'' = 0 \<and>
   getTaskCompletionRate (at_time ''U'' ten_o_clock) empty_database ''U'' = Inr 0 \<and>
   total_count three_tasks_db ''U'' = 3 \<and> completed_count three_tasks_db ''U'' = 1 \<and>
   getTaskCompletionRate (at_time ''U'' ten_o_clock) three_tasks_db ''U'' = Inr (3333 / 100)"
proof -
  have a: "total_count empty_database ''U'' = 0" by (simp add: task_eval)
  have b: "total_count three_tasks_db ''U'' = 3 \<and> completed_count three_tasks_db ''U'' = 1"
    by (simp add: task_eval)
  from a b
    task_completion_rate_rounded_percentage [of "at_time ''U'' ten_o_clock" empty_database "''U''"]
    task_completion_rate_rounded_percentage [of "at_time ''U'' ten_o_clock" three_tasks_db "''U''"]
  show ?thesis by simp
qed

subsection \<open>Paging through sessions\<close>

lemma apply_pagination_offset_only:
  assumes "offset opts = Some k" "0 < k" "limit opts = None"
  shows "apply_pagination (Some opts) = \<lparr>window_limit = Some 10, window_offset = Some k\<rparr>"
  using assms
  by (simp add: apply_pagination_def truthy_def limit_or_10_def query_range_def Let_def)

lemma apply_pagination_offset_zero:
  assumes "offset opts = Some 0"
  shows "apply_pagination (Some opts) = apply_pagination (Some (opts\<lparr>offset := None\<rparr>))"
  using assms
  by (simp add: apply_pagination_def truthy_def Let_def)

lemma getUserSessions_unpaged:
  assumes "offset opts = None" "limit opts = None"
  shows "\<exists>rows. getUserSessions ctx db userId (Some opts) = Inr rows"
  using assms
  by (simp add: getUserSessions_def apply_pagination_def truthy_def Let_def run_window_def)

text \<open>
  C10: with a positive \<open>offset\<close> and no \<open>limit\<close>, \<open>getUserSessions\<close> succeeds with
  at most 10 sessions: the 10 that follow the first \<open>offset\<close> ones of the result
  it gives without an offset. An \<open>offset\<close> of 0 gives the same result as no
  offset.
\<close>

theorem offset_without_limit_pages_by_ten:
  "(offset opts = Some k \<and> 0 < k \<and> limit opts = None \<longrightarrow>
      (\<exists>every rows.
          getUserSessions ctx db userId (Some (opts\<lparr>offset := None\<rparr>)) = Inr every \<and>
          getUserSessions ctx db userId (Some opts) = Inr rows \<and>
          rows = take 10 (drop (nat k) every) \<and> length rows \<le> 10)) \<and>
   (offset opts = Some 0 \<longrightarrow>
      getUserSessions ctx db userId (Some opts) =
      getUserSessions ctx db userId (Some (opts\<lparr>offset := None\<rparr>)))"
proof (intro conjI impI)
  assume a: "offset opts = Some k \<and> 0 < k \<and> limit opts = None"
  then have p: "apply_pagination (Some opts) = \<lparr>window_limit = Some 10, window_offset = Some k\<rparr>"
    by (simp add: apply_pagination_offset_only)
  have q: "apply_pagination (Some (opts\<lparr>offset := None\<rparr>)) =
      \<lparr>window_limit = None, window_offset = None\<rparr>"
    using a by (simp add: apply_pagination_def truthy_def Let_def)
  show "\<exists>every rows.
          getUserSessions ctx db userId (Some (opts\<lparr>offset := None\<rparr>)) = Inr every \<and>
          getUserSessions ctx db userId (Some opts) = Inr rows \<and>
          rows = take 10 (drop (nat k) every) \<and> length rows \<le> 10"
    using a by (simp add: getUserSessions_def p q run_window_def Let_def)
next
  assume "offset opts = Some 0"
  then show "getUserSessions ctx db userId (Some opts) =
      getUserSessions ctx db userId (Some (opts\<lparr>offset := None\<rparr>))"
    by (simp add: getUserSessions_def apply_pagination_offset_zero Let_def)
qed

lemma twelve_eval:
  "getUserSessions (at_time ''U'' ten_o_clock) twelve_days_db ''U'' (Some (only_offset 1)) =
     Inr (map (studied_days_ago ''U'') [1, 2, 3, 4, 5, 6, 7, 8, 9, 10])"
  by (simp add: getUserSessions_def apply_pagination_def truthy_def limit_or_10_def query_range_def Let_def
    run_window_def only_offset_def twelve_days_db_def empty_database_def study_sessions_policy_def at_time_def
    in_date_range_def order_rows_def order_key_def studied_days_ago_def pomodoro_def ten_o_clock_def days_def minutes_def)

text \<open>
  C10, witness: of twelve sessions, an offset of 1 alone returns the second to
  the eleventh; an offset of 0 alone returns what no offset returns.
\<close>

theorem offset_without_limit_pages_by_ten_witness:
  "offset (only_offset 1) = Some 1 \<and> (0::int) < 1 \<and> limit (only_offset 1) = None \<and>
   getUserSessions (at_time ''U'' ten_o_clock) twelve_days_db ''U'' (Some (only_offset 1)) =
     Inr (map (studied_days_ago ''U'') [1, 2, 3, 4, 5, 6, 7, 8, 9, 10]) \<and>
   offset (only_offset 0) = Some 0 \<and>
   getUserSessions (at_time ''U'' ten_o_clock) twelve_days_db ''U'' (Some (only_offset 0)) =
   getUserSessions (at_time ''U'' ten_o_clock) twelve_days_db ''U''
     (Some ((only_offset 0)\<lparr>offset := None\<rparr>))"
proof -
  have a: "offset (only_offset 1) = Some 1 \<and> (0::int) < 1 \<and> limit (only_offset 1) = None"
    by (simp add: only_offset_def)
  have b: "offset (only_offset 0) = Some 0"
    by (simp add: only_offset_def)
  from a b twelve_eval
    offset_without_limit_pages_by_ten [of "only_offset 1" 1 "at_time ''U'' ten_o_clock"
      twelve_days_db "''U''"]
    offset_without_limit_pages_by_ten [of "only_offset 0" 0 "at_time ''U'' ten_o_clock"
      twelve_days_db "''U''"]
  show ?thesis by simp
qed

subsection \<open>User statistics\<close>

lemma filter_eq_distinct:
  assumes "distinct xs"
  shows "filter (\<lambda>u. u = a) xs = (if a \<in> set xs then [a] else [])"
  using assms by (induction xs) auto

lemma stats_rows_of_owner:
  "filter (\<lambda>r. stats_user_id r = owner) (user_study_stats now rows) =
     (if \<exists>s \<in> set rows. user_id s = owner \<and> end_time s \<noteq> None
      then [stats_of_group now owner
              (filter (\<lambda>s. user_id s = owner) (filter (\<lambda>s. end_time s \<noteq> None) rows))]
      else [])"
proof -
  let ?ended = "filter (\<lambda>s. end_time s \<noteq> None) rows"
  let ?f = "\<lambda>u. stats_of_group now u (filter (\<lambda>s. user_id s = u) ?ended)"
  have "filter (\<lambda>r. stats_user_id r = owner) (map ?f (remdups (map user_id ?ended))) =
        map ?f (filter (\<lambda>u. u = owner) (remdups (map user_id ?ended)))"
    by (simp add: filter_map comp_def stats_of_group_def)
  also have "filter (\<lambda>u. u = owner) (remdups (map user_id ?ended)) =
        (if owner \<in> set (remdups (map user_id ?ended)) then [owner] else [])"
    by (rule filter_eq_distinct) simp
  also have "owner \<in> set (remdups (map user_id ?ended)) \<longleftrightarrow>
        (\<exists>s \<in> set rows. user_id s = owner \<and> end_time s \<noteq> None)"
    by auto
  finally show ?thesis
    by (simp add: user_study_stats_def Let_def)
qed

lemma ended_sessions_of_alt:
  "ended_sessions_of db owner =
     filter (\<lambda>s. user_id s = owner) (filter (\<lambda>s. end_time s \<noteq> None) (study_sessions db))"
  by (simp add: ended_sessions_of_def conj_commute)

lemma ended_sessions_of_empty:
  "ended_sessions_of db owner = [] \<longleftrightarrow>
     \<not> (\<exists>s \<in> set (study_sessions db). user_id s = owner \<and> end_time s \<noteq> None)"
  by (auto simp: ended_sessions_of_def filter_empty_conv)

lemma non_null_empty: "non_null xs = [] \<longleftrightarrow> (\<forall>x \<in> set xs. x = None)"
  by (induction xs) (auto simp: non_null_def split: option.splits)

lemma sql_AVG_None: "sql_AVG (map f g) = None \<longleftrightarrow> list_all (\<lambda>s. f s = None) g"
proof -
  have "sql_AVG (map f g) = None \<longleftrightarrow> non_null (map f g) = []"
    by (simp add: sql_AVG_def split: list.splits)
  then show ?thesis
    by (simp add: non_null_empty list_all_iff)
qed

text \<open>
  C6 (amended): for an owner without an ended session \<open>getUserStats\<close> fails with
  the no-row error \<open>PGRST116\<close>: the view has no row for that owner. For an owner
  with an ended session it succeeds with the owner's row, which counts the ended
  sessions, and each average in it is absent exactly when none of these sessions
  carries the averaged value.
\<close>

theorem user_stats_without_ended_sessions_fail:
  "(ended_sessions_of db owner = [] \<longrightarrow> getUserStats ctx db owner = Inl PGRST116) \<and>
   (ended_sessions_of db owner \<noteq> [] \<longrightarrow>
      (\<exists>r. getUserStats ctx db owner = Inr r \<and>
           stats_user_id r = owner \<and>
           total_sessions r = int (length (ended_sessions_of db owner)) \<and>
           (avg_session_duration r = None \<longleftrightarrow>
              list_all (\<lambda>s. duration_minutes s = None) (ended_sessions_of db owner)) \<and>
           (avg_productivity_rating r = None \<longleftrightarrow>
              list_all (\<lambda>s. productivity_rating s = None) (ended_sessions_of db owner)) \<and>
           (avg_mood_rating r = None \<longleftrightarrow>
              list_all (\<lambda>s. mood_rating s = None) (ended_sessions_of db owner))))"
proof (intro conjI impI)
  assume "ended_sessions_of db owner = []"
  then show "getUserStats ctx db owner = Inl PGRST116"
    by (simp add: getUserStats_def stats_rows_of_owner ended_sessions_of_empty single_def)
next
  assume "ended_sessions_of db owner \<noteq> []"
  then have "\<exists>s \<in> set (study_sessions db). user_id s = owner \<and> end_time s \<noteq> None"
    by (simp only: ended_sessions_of_empty not_not)
  then have "filter (\<lambda>r. stats_user_id r = owner) (user_study_stats (NOW ctx) (study_sessions db)) =
      [stats_of_group (NOW ctx) owner (ended_sessions_of db owner)]"
    unfolding ended_sessions_of_alt by (simp only: stats_rows_of_owner if_True)
  then have "getUserStats ctx db owner =
      Inr (stats_of_group (NOW ctx) owner (ended_sessions_of db owner))"
    by (simp add: getUserStats_def single_def)
  then show "\<exists>r. getUserStats ctx db owner = Inr r \<and>
           stats_user_id r = owner \<and>
           total_sessions r = int (length (ended_sessions_of db owner)) \<and>
           (avg_session_duration r = None \<longleftrightarrow>
              list_all (\<lambda>s. duration_minutes s = None) (ended_sessions_of db owner)) \<and>
           (avg_productivity_rating r = None \<longleftrightarrow>
              list_all (\<lambda>s. productivity_rating s = None) (ended_sessions_of db owner)) \<and>
           (avg_mood_rating r = None \<longleftrightarrow>
              list_all (\<lambda>s. mood_rating s = None) (ended_sessions_of db owner))"
    by (simp add: stats_of_group_def sql_AVG_None COUNT_where_def)
qed

text \<open>
  C6 (as stated): for an owner without an ended session \<open>getUserStats\<close> succeeds,
  with absent averages. Owner \<open>U\<close>, whose only session is still active, gets a
  failure.
\<close>

theorem user_stats_absent_counterexample:
  "ended_sessions_of pomodoro_db ''U'' = [] \<and>
   getUserStats (at_time ''U'' (ten_o_clock + minutes 5)) pomodoro_db ''U'' = Inl PGRST116"
  by (simp add: getUserStats_def user_study_stats_def single_def ended_sessions_of_def
      pomodoro_db_def pomodoro_def empty_database_def)

text \<open>
  C6, witness: the failure for owner \<open>U\<close> while the pomodoro session is active, and
  the row once it has ended, with no productivity rating and mood 4.
\<close>

theorem user_stats_without_ended_sessions_fail_witness:
  "ended_sessions_of pomodoro_db ''U'' = [] \<and>
   getUserStats (at_time ''U'' (ten_o_clock + minutes 5)) pomodoro_db ''U'' = Inl PGRST116 \<and>
   ended_sessions_of ended_once ''U'' \<noteq> [] \<and>
   getUserStats (at_time ''U'' (ten_o_clock + minutes 30)) ended_once ''U'' =
     Inr \<lparr> stats_user_id = ''U'', total_sessions = 1, total_minutes_studied = Some 25,
           avg_session_duration = Some 25, avg_productivity_rating = None,
           avg_mood_rating = Some 4, last_session_date = Some ten_o_clock,
           sessions_this_week = 1, sessions_this_month = 1 \<rparr>"
proof -
  have a: "ended_sessions_of pomodoro_db ''U'' = []"
    by (simp add: ended_sessions_of_def pomodoro_db_def pomodoro_def empty_database_def)
  have b: "ended_sessions_of ended_once ''U'' \<noteq> []"
    by (simp add: ended_sessions_of_def ended_once_eval pomodoro_db_def pomodoro_def empty_database_def)
  have c: "getUserStats (at_time ''U'' (ten_o_clock + minutes 30)) ended_once ''U'' =
     Inr \<lparr> stats_user_id = ''U'', total_sessions = 1, total_minutes_studied = Some 25,
           avg_session_duration = Some 25, avg_productivity_rating = None,
           avg_mood_rating = Some 4, last_session_date = Some ten_o_clock,
           sessions_this_week = 1, sessions_this_month = 1 \<rparr>"
    by (simp add: getUserStats_def user_study_stats_def single_def stats_of_group_def
        ended_once_eval pomodoro_db_def pomodoro_def empty_database_def COUNT_where_def
        sql_SUM_def sql_AVG_def sql_MAX_def non_null_def at_time_def days_def minutes_def
        ten_o_clock_def)
  from a b c
    user_stats_without_ended_sessions_fail [of pomodoro_db "''U''" "at_time ''U'' (ten_o_clock + minutes 5)"]
    user_stats_without_ended_sessions_fail [of ended_once "''U''" "at_time ''U'' (ten_o_clock + minutes 30)"]
  show ?thesis by simp
qed

subsection \<open>Tags of a session\<close>

lemma tags_policy_owns:
  "study_session_tags_policy ctx db r \<longleftrightarrow> owns_session ctx db (session_id r)"
  by (simp add: study_session_tags_policy_def owns_session_def)

lemma insert_tag_rows_ok:
  assumes "owns_session ctx db sid" "\<forall>t \<in> set ns. length t \<le> 50" "distinct ns"
    "\<forall>t \<in> set ns. \<not> stored_tag tbl sid t"
  shows "\<exists>rows. insert_tag_rows ctx db tbl k
            (map (\<lambda>t. \<lparr>ins_session_id = sid, ins_tag = t\<rparr>) ns) = Inr rows \<and>
          map tag rows = ns \<and> (\<forall>r \<in> set rows. session_id r = sid)"
  using assms
proof (induction ns arbitrary: tbl k)
  case Nil
  then show ?case by simp
next
  case (Cons t ns)
  let ?r = "\<lparr>tag_id = uuid_generate_v4 ctx k, session_id = sid, tag = t, tag_created_at = NOW ctx\<rparr>"
  have "\<forall>t' \<in> set ns. \<not> stored_tag (tbl @ [?r]) sid t'"
    using Cons.prems(3,4) by (auto simp: stored_tag_def)
  then obtain rows where
    rows: "insert_tag_rows ctx db (tbl @ [?r]) (Suc k)
            (map (\<lambda>t. \<lparr>ins_session_id = sid, ins_tag = t\<rparr>) ns) = Inr rows"
      "map tag rows = ns" "\<forall>r \<in> set rows. session_id r = sid"
    using Cons.IH [of "tbl @ [?r]" "Suc k"] Cons.prems by auto
  have "\<not> (\<exists>x \<in> set tbl. session_id x = sid \<and> tag x = t)"
    using Cons.prems(4) by (simp add: stored_tag_def)
  then show ?case
    using Cons.prems(1,2) rows
    by (simp add: Let_def tags_policy_owns)
qed

lemma insert_tag_rows_duplicate:
  assumes "owns_session ctx db sid" "\<forall>t \<in> set ns. length t \<le> 50"
    "\<not> distinct ns \<or> (\<exists>t \<in> set ns. stored_tag tbl sid t)"
  shows "insert_tag_rows ctx db tbl k
            (map (\<lambda>t. \<lparr>ins_session_id = sid, ins_tag = t\<rparr>) ns) = Inl Unique_violation"
  using assms
proof (induction ns arbitrary: tbl k)
  case Nil
  then show ?case by simp
next
  case (Cons t ns)
  let ?r = "\<lparr>tag_id = uuid_generate_v4 ctx k, session_id = sid, tag = t, tag_created_at = NOW ctx\<rparr>"
  show ?case
  proof (cases "stored_tag tbl sid t")
    case True
    then show ?thesis
      using Cons.prems(1,2) by (simp add: Let_def tags_policy_owns stored_tag_def)
  next
    case False
    have "\<not> distinct ns \<or> (\<exists>t' \<in> set ns. stored_tag (tbl @ [?r]) sid t')"
      using Cons.prems(3) False by (auto simp: stored_tag_def)
    then have "insert_tag_rows ctx db (tbl @ [?r]) (Suc k)
            (map (\<lambda>t. \<lparr>ins_session_id = sid, ins_tag = t\<rparr>) ns) = Inl Unique_violation"
      using Cons.IH [of "tbl @ [?r]" "Suc k"] Cons.prems(1,2) by simp
    then show ?thesis
      using Cons.prems(1,2) False by (simp add: Let_def tags_policy_owns stored_tag_def)
  qed
qed

lemma tag_inserts_map:
  "map (\<lambda>t. \<lparr>ins_session_id = sid, ins_tag = normalize_tag t\<rparr>) tags =
   map (\<lambda>t. \<lparr>ins_session_id = sid, ins_tag = t\<rparr>) (map normalize_tag tags)"
  by simp

lemma listTags_eq:
  "listTags ctx db sid =
     (if owns_session ctx db sid
      then {t. stored_tag (study_session_tags db) sid t} else {})"
  by (auto simp: listTags_def getSessionTags_def tags_policy_owns stored_tag_def image_iff)

lemma addSessionTags_ok:
  assumes "owns_session ctx db sid" "\<forall>t \<in> set tags. length (normalize_tag t) \<le> 50"
    "distinct (map normalize_tag tags)"
    "\<forall>t \<in> set tags. \<not> stored_tag (study_session_tags db) sid (normalize_tag t)"
  shows "\<exists>rows db'. addSessionTags ctx db sid tags = (Inr rows, db') \<and>
           map tag rows = map normalize_tag tags \<and>
           listTags ctx db' sid = listTags ctx db sid \<union> normalize_tag ` set tags"
proof -
  obtain rows where
    rows: "insert_tag_rows ctx db (study_session_tags db) 0
            (map (\<lambda>t. \<lparr>ins_session_id = sid, ins_tag = t\<rparr>) (map normalize_tag tags)) = Inr rows"
      "map tag rows = map normalize_tag tags" "\<forall>r \<in> set rows. session_id r = sid"
    using insert_tag_rows_ok [of ctx db sid "map normalize_tag tags" "study_session_tags db" 0] assms
    by auto
  let ?db' = "db\<lparr>study_session_tags := study_session_tags db @ rows\<rparr>"
  have "insert_tag_rows ctx db (study_session_tags db) 0
            (map (\<lambda>t. \<lparr>ins_session_id = sid, ins_tag = normalize_tag t\<rparr>) tags) = Inr rows"
    using rows(1) by (simp only: tag_inserts_map)
  then have add: "addSessionTags ctx db sid tags = (Inr rows, ?db')"
    by (simp add: addSessionTags_def)
  have own': "owns_session ctx ?db' sid"
    using assms(1) by (simp add: owns_session_def)
  have img: "tag ` set rows = normalize_tag ` set tags"
    using rows(2) by (metis image_set)
  have "{t. stored_tag (study_session_tags db @ rows) sid t} =
      {t. stored_tag (study_session_tags db) sid t} \<union> tag ` set rows"
    using rows(3) by (auto simp: stored_tag_def)
  then have "{t. stored_tag (study_session_tags db @ rows) sid t} =
      {t. stored_tag (study_session_tags db) sid t} \<union> normalize_tag ` set tags"
    by (simp only: img)
  then have "listTags ctx ?db' sid = listTags ctx db sid \<union> normalize_tag ` set tags"
    using assms(1) own' by (simp add: listTags_eq)
  with add rows(2) show ?thesis by blast
qed

lemma addSessionTags_duplicate:
  assumes "owns_session ctx db sid" "\<forall>t \<in> set tags. length (normalize_tag t) \<le> 50"
    "\<not> (distinct (map normalize_tag tags) \<and>
        (\<forall>t \<in> set tags. \<not> stored_tag (study_session_tags db) sid (normalize_tag t)))"
  shows "addSessionTags ctx db sid tags = (Inl Unique_violation, db)"
proof -
  have "insert_tag_rows ctx db (study_session_tags db) 0
            (map (\<lambda>t. \<lparr>ins_session_id = sid, ins_tag = t\<rparr>) (map normalize_tag tags))
        = Inl Unique_violation"
    using insert_tag_rows_duplicate [of ctx db sid "map normalize_tag tags" "study_session_tags db" 0]
      assms by auto
  then have "insert_tag_rows ctx db (study_session_tags db) 0
            (map (\<lambda>t. \<lparr>ins_session_id = sid, ins_tag = normalize_tag t\<rparr>) tags)
        = Inl Unique_violation"
    by (simp only: tag_inserts_map)
  then show ?thesis
    by (simp add: addSessionTags_def)
qed

text \<open>
  C4 (amended): \<open>addSessionTags\<close> lower-cases and trims each tag and inserts all of
  them in one plain insert. For the owner of the session and ASCII tags of at
  most 50 characters: when the normalized tags are pairwise distinct and none of
  them is stored for the session yet, the call succeeds and \<open>listTags\<close> afterwards
  yields the tags listed before together with the normalized ones; otherwise
  (two supplied tags normalize to the same string, or one is already stored) the
  call fails with a unique violation, stores nothing, and \<open>listTags\<close> yields what
  it yielded before. Nothing is deduplicated.
\<close>

theorem add_tags_is_a_plain_insert:
  assumes "owns_session ctx db sid"
    and "\<forall>t \<in> set tags. length (normalize_tag t) \<le> 50"
    and "\<forall>t \<in> set tags. ascii_text t"
  shows "(distinct (map normalize_tag tags) \<and>
          (\<forall>t \<in> set tags. \<not> stored_tag (study_session_tags db) sid (normalize_tag t)) \<longrightarrow>
            (\<exists>rows db'. addSessionTags ctx db sid tags = (Inr rows, db') \<and>
               map tag rows = map normalize_tag tags \<and>
               listTags ctx db' sid = listTags ctx db sid \<union> normalize_tag ` set tags)) \<and>
         (\<not> (distinct (map normalize_tag tags) \<and>
             (\<forall>t \<in> set tags. \<not> stored_tag (study_session_tags db) sid (normalize_tag t))) \<longrightarrow>
            addSessionTags ctx db sid tags = (Inl Unique_violation, db) \<and>
            listTags ctx (snd (addSessionTags ctx db sid tags)) sid = listTags ctx db sid)"
  using addSessionTags_ok [OF assms(1,2)] addSessionTags_duplicate [OF assms(1,2)] by auto

lemma ascii_samples:
  "ascii_text ''Math''" "ascii_text ''math ''" "ascii_text '' Physics''" "ascii_text ''  ''"
  by code_simp+

lemma normalize_Math: "normalize_tag ''Math'' = ''math''"
  by code_simp

lemma normalize_math_space: "normalize_tag ''math '' = ''math''"
  by code_simp

lemma normalize_Physics: "normalize_tag '' Physics'' = ''physics''"
  by code_simp

lemma normalize_blank: "normalize_tag ''  '' = ''''"
  by code_simp

lemmas tag_eval =
  addSessionTags_def study_session_tags_policy_def listTags_def getSessionTags_def
  pomodoro_db_def pomodoro_def empty_database_def at_time_def Let_def
  normalize_Math normalize_math_space normalize_Physics normalize_blank

text \<open>
  C4 (as stated): adding \<open>Math\<close> and \<open>math\<close> followed by a space to a session of
  the caller, then listing its tags, yields exactly the tag \<open>math\<close>. On the
  pomodoro session, which has no tag, the call fails with a unique violation and
  the tags listed afterwards are none.
\<close>

theorem add_tags_dedup_counterexample:
  "addSessionTags (at_time ''U'' ten_o_clock) pomodoro_db ''S'' [''Math'', ''math ''] =
     (Inl Unique_violation, pomodoro_db) \<and>
   listTags (at_time ''U'' ten_o_clock)
     (snd (addSessionTags (at_time ''U'' ten_o_clock) pomodoro_db ''S'' [''Math'', ''math '']))
     ''S'' = {}"
  by (simp add: tag_eval)

text \<open>
  C4, witness: on the pomodoro session the two spellings of \<open>math\<close> fail, and
  \<open>Math\<close> with \<open>Physics\<close> are stored as \<open>math\<close> and \<open>physics\<close>.
\<close>

theorem add_tags_is_a_plain_insert_witness:
  "owns_session (at_time ''U'' ten_o_clock) pomodoro_db ''S'' \<and>
   list_all ascii_text [''Math'', ''math ''] \<and> list_all ascii_text [''Math'', '' Physics''] \<and>
   list_all (\<lambda>t. length (normalize_tag t) \<le> 50) [''Math'', ''math ''] \<and>
   \<not> distinct (map normalize_tag [''Math'', ''math '']) \<and>
   addSessionTags (at_time ''U'' ten_o_clock) pomodoro_db ''S'' [''Math'', ''math ''] =
     (Inl Unique_violation, pomodoro_db) \<and>
   list_all (\<lambda>t. length (normalize_tag t) \<le> 50) [''Math'', '' Physics''] \<and>
   distinct (map normalize_tag [''Math'', '' Physics'']) \<and>
   list_all (\<lambda>t. \<not> stored_tag (study_session_tags pomodoro_db) ''S'' (normalize_tag t))
     [''Math'', '' Physics''] \<and>
   listTags (at_time ''U'' ten_o_clock)
     (snd (addSessionTags (at_time ''U'' ten_o_clock) pomodoro_db ''S'' [''Math'', '' Physics'']))
     ''S'' = {''math'', ''physics''}"
proof -
  let ?ctx = "at_time ''U'' ten_o_clock"
  have own: "owns_session ?ctx pomodoro_db ''S''"
    by (simp add: owns_session_def tag_eval)
  have len1: "\<forall>t \<in> set [''Math'', ''math '']. length (normalize_tag t) \<le> 50"
    by (simp add: tag_eval)
  have len2: "\<forall>t \<in> set [''Math'', '' Physics'']. length (normalize_tag t) \<le> 50"
    by (simp add: tag_eval)
  have asc1: "\<forall>t \<in> set [''Math'', ''math '']. ascii_text t"
    by (simp add: ascii_samples)
  have asc2: "\<forall>t \<in> set [''Math'', '' Physics'']. ascii_text t"
    by (simp add: ascii_samples)
  have dup: "\<not> distinct (map normalize_tag [''Math'', ''math ''])"
    by (simp add: tag_eval)
  have dis: "distinct (map normalize_tag [''Math'', '' Physics''])"
    by (simp add: tag_eval)
  have new: "\<forall>t \<in> set [''Math'', '' Physics''].
      \<not> stored_tag (study_session_tags pomodoro_db) ''S'' (normalize_tag t)"
    by (simp add: stored_tag_def tag_eval)
  have before: "listTags ?ctx pomodoro_db ''S'' = {}"
    by (simp add: tag_eval)
  from add_tags_is_a_plain_insert [OF own len1 asc1] dup
  have one: "addSessionTags ?ctx pomodoro_db ''S'' [''Math'', ''math ''] =
      (Inl Unique_violation, pomodoro_db)"
    by blast
  from add_tags_is_a_plain_insert [OF own len2 asc2] dis new
  obtain rows db' where
    "addSessionTags ?ctx pomodoro_db ''S'' [''Math'', '' Physics''] = (Inr rows, db')"
    "listTags ?ctx db' ''S'' =
       listTags ?ctx pomodoro_db ''S'' \<union> normalize_tag ` set [''Math'', '' Physics'']"
    by blast
  then have two: "listTags ?ctx
      (snd (addSessionTags ?ctx pomodoro_db ''S'' [''Math'', '' Physics''])) ''S'' =
      {''math'', ''physics''}"
    using before by (simp add: normalize_Math normalize_Physics)
  from own asc1 asc2 len1 len2 dup dis new one two show ?thesis
    by (simp only: list_all_iff simp_thms)
qed

text \<open>
  C8 (amended): \<open>addSessionTags\<close> makes no check for emptiness. A supplied tag that
  is empty after normalization is inserted as the empty string on the terms of
  any other tag: for the owner of the session and ASCII tags of at most 50
  characters, pairwise distinct after normalization and not stored yet, the call
  succeeds and the empty string is among the stored tags of the session.
\<close>

theorem empty_tag_is_stored:
  assumes "owns_session ctx db sid" and "\<forall>t \<in> set tags. length (normalize_tag t) \<le> 50"
    and "distinct (map normalize_tag tags)"
    and "\<forall>t \<in> set tags. \<not> stored_tag (study_session_tags db) sid (normalize_tag t)"
    and "t \<in> set tags" and "normalize_tag t = ''''"
    and "\<forall>t \<in> set tags. ascii_text t"
  shows "\<exists>rows db'. addSessionTags ctx db sid tags = (Inr rows, db') \<and>
           map tag rows = map normalize_tag tags \<and> '''' \<in> tag ` set rows \<and>
           '''' \<in> listTags ctx db' sid"
proof -
  obtain rows db' where
    r: "addSessionTags ctx db sid tags = (Inr rows, db')"
      "map tag rows = map normalize_tag tags"
      "listTags ctx db' sid = listTags ctx db sid \<union> normalize_tag ` set tags"
    using addSessionTags_ok [OF assms(1-4)] by blast
  have e: "'''' \<in> normalize_tag ` set tags"
    using assms(5,6) by (metis image_eqI)
  have "tag ` set rows = normalize_tag ` set tags"
    using r(2) by (metis image_set)
  with e r show ?thesis by simp
qed

text \<open>
  C8 (as stated): a tag that is empty after normalization is rejected, and no
  stored tag is the empty string. A tag of two spaces, added to the pomodoro
  session by its owner, is stored as the empty string and the call succeeds.
\<close>

theorem empty_tag_rejected_counterexample:
  "addSessionTags (at_time ''U'' ten_o_clock) pomodoro_db ''S'' [''  ''] =
     (Inr [\<lparr>tag_id = ''row-'', session_id = ''S'', tag = '''', tag_created_at = ten_o_clock\<rparr>],
      pomodoro_db\<lparr>study_session_tags :=
        [\<lparr>tag_id = ''row-'', session_id = ''S'', tag = '''', tag_created_at = ten_o_clock\<rparr>]\<rparr>) \<and>
   listTags (at_time ''U'' ten_o_clock)
     (snd (addSessionTags (at_time ''U'' ten_o_clock) pomodoro_db ''S'' [''  ''])) ''S'' = {''''}"
  by (simp add: tag_eval)

text \<open>
  C8, witness: \<open>Math\<close> and a tag of two spaces, added to the pomodoro session.
\<close>

theorem empty_tag_is_stored_witness:
  "owns_session (at_time ''U'' ten_o_clock) pomodoro_db ''S'' \<and>
   list_all ascii_text [''Math'', ''  ''] \<and>
   list_all (\<lambda>t. length (normalize_tag t) \<le> 50) [''Math'', ''  ''] \<and>
   distinct (map normalize_tag [''Math'', ''  '']) \<and>
   list_all (\<lambda>t. \<not> stored_tag (study_session_tags pomodoro_db) ''S'' (normalize_tag t))
     [''Math'', ''  ''] \<and>
   ''  '' \<in> set [''Math'', ''  ''] \<and> normalize_tag ''  '' = '''' \<and>
   '''' \<in> listTags (at_time ''U'' ten_o_clock)
     (snd (addSessionTags (at_time ''U'' ten_o_clock) pomodoro_db ''S'' [''Math'', ''  ''])) ''S''"
proof -
  let ?ctx = "at_time ''U'' ten_o_clock"
  have own: "owns_session ?ctx pomodoro_db ''S''"
    by (simp add: owns_session_def tag_eval)
  have len: "\<forall>t \<in> set [''Math'', ''  '']. length (normalize_tag t) \<le> 50"
    by (simp add: tag_eval)
  have dis: "distinct (map normalize_tag [''Math'', ''  ''])"
    by (simp add: tag_eval)
  have new: "\<forall>t \<in> set [''Math'', ''  ''].
      \<not> stored_tag (study_session_tags pomodoro_db) ''S'' (normalize_tag t)"
    by (simp add: stored_tag_def tag_eval)
  have mem: "''  '' \<in> set [''Math'', ''  '']" by simp
  have asc: "\<forall>t \<in> set [''Math'', ''  '']. ascii_text t"
    by (simp add: ascii_samples)
  from empty_tag_is_stored [OF own len dis new mem normalize_blank asc]
  have "'''' \<in> listTags ?ctx (snd (addSessionTags ?ctx pomodoro_db ''S'' [''Math'', ''  ''])) ''S''"
    by auto
  with own asc len dis new mem normalize_blank show ?thesis
    by (simp only: list_all_iff simp_thms)
qed

subsection \<open>Completion of a task\<close>

lemma check_task_row_Inr: "check_task_row ctx db c t = Inr r \<Longrightarrow> r = t"
  by (simp add: check_task_row_def split: if_splits)

lemma tasks_before_update_consistent:
  assumes "completion_consistent OLD" "completed_at NEW = completed_at OLD"
  shows "completion_consistent (tasks_before_update ctx OLD NEW)"
  using assms
  by (auto simp: completion_consistent_def tasks_before_update_def set_task_completed_at_def
      update_tasks_updated_at_def)

lemma tasks_before_update_transitions:
  assumes "completed_at NEW = completed_at OLD"
  shows "is_completed (tasks_before_update ctx OLD NEW) = is_completed NEW"
    "is_completed NEW \<and> \<not> is_completed OLD \<Longrightarrow>
       completed_at (tasks_before_update ctx OLD NEW) = Some (NOW ctx)"
    "is_completed NEW \<and> is_completed OLD \<Longrightarrow>
       completed_at (tasks_before_update ctx OLD NEW) = completed_at OLD"
    "\<not> is_completed NEW \<Longrightarrow> completed_at (tasks_before_update ctx OLD NEW) = None"
  using assms
  by (auto simp: tasks_before_update_def set_task_completed_at_def update_tasks_updated_at_def)

lemma set_task_columns_completed_at: "completed_at (set_task_columns u t) = completed_at t"
  by (simp add: set_task_columns_def)

lemma update_task_row_consistent:
  assumes "update_task_row ctx db u OLD = Inr r" "completion_consistent OLD"
  shows "completion_consistent r"
proof -
  have "r = tasks_before_update ctx OLD (set_task_columns u OLD)"
    using assms(1) unfolding update_task_row_def by (rule check_task_row_Inr)
  then show ?thesis
    using tasks_before_update_consistent [OF assms(2), of "set_task_columns u OLD" ctx]
    by (simp add: set_task_columns_completed_at)
qed

lemma updateTask_consistent:
  assumes "\<forall>t \<in> set (tasks db). completion_consistent t"
  shows "\<forall>t \<in> set (tasks (snd (updateTask ctx db tid u))). completion_consistent t"
proof (cases "filter (\<lambda>t. tasks_policy ctx t \<and> task_id t = tid) (tasks db)")
  case Nil
  then show ?thesis using assms by (simp add: updateTask_def)
next
  case outer: (Cons OLD rest)
  then have "OLD \<in> set (filter (\<lambda>t. tasks_policy ctx t \<and> task_id t = tid) (tasks db))"
    by simp
  then have old: "completion_consistent OLD" using assms by simp
  show ?thesis
  proof (cases rest)
    case Nil
    show ?thesis
    proof (cases "update_task_row ctx db u OLD")
      case (Inl err)
      then show ?thesis using assms outer Nil by (simp add: updateTask_def)
    next
      case (Inr r)
      then have "completion_consistent r" using old by (rule update_task_row_consistent)
      then show ?thesis using assms outer Nil Inr by (auto simp: updateTask_def)
    qed
  next
    case (Cons a list)
    then show ?thesis using assms outer by (simp add: updateTask_def)
  qed
qed

lemma toggleTaskCompletion_consistent:
  assumes "\<forall>t \<in> set (tasks db). completion_consistent t"
  shows "\<forall>t \<in> set (tasks (snd (toggleTaskCompletion ctx db tid))). completion_consistent t"
proof (cases "getTask ctx db tid")
  case (Inl err)
  then show ?thesis using assms by (simp add: toggleTaskCompletion_def)
next
  case (Inr cur)
  then show ?thesis
    using updateTask_consistent [OF assms] by (simp add: toggleTaskCompletion_def)
qed

lemma deleteTask_consistent:
  assumes "\<forall>t \<in> set (tasks db). completion_consistent t"
  shows "\<forall>t \<in> set (tasks (snd (deleteTask ctx db tid))). completion_consistent t"
  using assms by (simp add: deleteTask_def)

lemma on_delete_set_null_consistent:
  assumes "completion_consistent t"
  shows "completion_consistent (on_delete_set_null ctx ids t)"
  using assms tasks_before_update_consistent [OF assms, of "t\<lparr>task_session_id := None\<rparr>" ctx]
  by (simp add: on_delete_set_null_def split: option.splits)

lemma deleteSession_tasks_consistent:
  assumes "\<forall>t \<in> set (tasks db). completion_consistent t"
  shows "\<forall>t \<in> set (tasks (snd (deleteSession ctx db sid))). completion_consistent t"
  using assms by (auto simp: deleteSession_def Let_def on_delete_set_null_consistent)

lemma all_or_error_Inr_set:
  assumes "all_or_error xs = Inr ys"
  shows "\<forall>y \<in> set ys. Inr y \<in> set xs"
  using assms
proof (induction xs arbitrary: ys)
  case Nil
  then show ?case by simp
next
  case (Cons x xs)
  show ?case
  proof (cases x)
    case (Inl err)
    then show ?thesis using Cons.prems by simp
  next
    case (Inr v)
    then obtain rest where rest: "all_or_error xs = Inr rest" "ys = v # rest"
      using Cons.prems by (auto split: sum.splits)
    then show ?thesis using Cons.IH [OF rest(1)] Inr by auto
  qed
qed

lemma update_order_index_consistent:
  assumes "\<forall>t \<in> set (tasks db). completion_consistent t"
  shows "\<forall>t \<in> set (tasks (update_order_index ctx db tid idx)). completion_consistent t"
proof (cases "all_or_error
             (map (\<lambda>t. if tasks_policy ctx t \<and> task_id t = tid
                       then update_task_row ctx db (no_task_update\<lparr>tu_order_index := SetTo idx\<rparr>) t
                       else Inr t)
                (tasks db))")
  case (Inl err)
  then show ?thesis using assms by (simp add: update_order_index_def)
next
  case (Inr rows)
  have "completion_consistent y" if "y \<in> set rows" for y
  proof -
    from all_or_error_Inr_set [OF Inr] that obtain t where
      t: "t \<in> set (tasks db)"
        "(if tasks_policy ctx t \<and> task_id t = tid
          then update_task_row ctx db (no_task_update\<lparr>tu_order_index := SetTo idx\<rparr>) t
          else Inr t) = Inr y"
      by auto
    show ?thesis
    proof (cases "tasks_policy ctx t \<and> task_id t = tid")
      case True
      then have "update_task_row ctx db (no_task_update\<lparr>tu_order_index := SetTo idx\<rparr>) t = Inr y"
        using t(2) by simp
      moreover have "completion_consistent t" using assms t(1) by simp
      ultimately show ?thesis by (rule update_task_row_consistent)
    next
      case False
      then show ?thesis using assms t by auto
    qed
  qed
  then show ?thesis using Inr by (simp add: update_order_index_def)
qed

lemma reorderTasks_consistent:
  assumes "\<forall>t \<in> set (tasks db). completion_consistent t"
  shows "\<forall>t \<in> set (tasks (snd (reorderTasks ctx db ups))). completion_consistent t"
proof -
  have "\<forall>t \<in> set (tasks (reorder_statements ctx db ups)). completion_consistent t"
    using assms
  proof (induction ups arbitrary: db)
    case Nil
    then show ?case by simp
  next
    case (Cons a ups)
    obtain tid idx where a: "a = (tid, idx)" by (cases a)
    show ?case
      unfolding a reorder_statements.simps
      by (rule Cons.IH) (rule update_order_index_consistent [OF Cons.prems])
  qed
  then show ?thesis by (simp add: reorderTasks_def)
qed

lemma updateTask_Inr:
  assumes "updateTask ctx db tid u = (Inr r, db')"
  obtains OLD where
    "filter (\<lambda>t. tasks_policy ctx t \<and> task_id t = tid) (tasks db) = [OLD]"
    "update_task_row ctx db u OLD = Inr r"
    "db' = db\<lparr>tasks := map (\<lambda>t. if tasks_policy ctx t \<and> task_id t = tid then r else t) (tasks db)\<rparr>"
  using assms
  by (auto simp: updateTask_def split: list.splits sum.splits)

lemma updateTask_transitions:
  assumes "getTask ctx db tid = Inr OLD" "updateTask ctx db tid u = (Inr r, db')"
  shows "is_completed r = apply_patch (tu_is_completed u) (is_completed OLD)"
    "is_completed r \<and> \<not> is_completed OLD \<Longrightarrow> completed_at r = Some (NOW ctx)"
    "is_completed r \<and> is_completed OLD \<Longrightarrow> completed_at r = completed_at OLD"
    "\<not> is_completed r \<Longrightarrow> completed_at r = None"
proof -
  from assms(2) obtain OLD' where
    f: "filter (\<lambda>t. tasks_policy ctx t \<and> task_id t = tid) (tasks db) = [OLD']"
    and u: "update_task_row ctx db u OLD' = Inr r"
    by (rule updateTask_Inr)
  have "OLD' = OLD" using assms(1) f by (simp add: getTask_def single_def)
  with u have r: "r = tasks_before_update ctx OLD (set_task_columns u OLD)"
    unfolding update_task_row_def by (simp add: check_task_row_Inr)
  note t = tasks_before_update_transitions [of "set_task_columns u OLD" OLD ctx,
      OF set_task_columns_completed_at]
  have n: "is_completed (set_task_columns u OLD) = apply_patch (tu_is_completed u) (is_completed OLD)"
    by (simp add: set_task_columns_def)
  show "is_completed r = apply_patch (tu_is_completed u) (is_completed OLD)"
    using t(1) n r by simp
  show "is_completed r \<and> \<not> is_completed OLD \<Longrightarrow> completed_at r = Some (NOW ctx)"
    using t(1,2) r by simp
  show "is_completed r \<and> is_completed OLD \<Longrightarrow> completed_at r = completed_at OLD"
    using t(1,3) r by simp
  show "\<not> is_completed r \<Longrightarrow> completed_at r = None"
    using t(1,4) r by simp
qed

text \<open>
  On every update the trigger keeps \<open>is_completed\<close> and the presence of
  \<open>completed_at\<close> in step: when all stored tasks are completed exactly when they
  carry a \<open>completed_at\<close>, they still are after \<open>updateTask\<close>,
  \<open>toggleTaskCompletion\<close>, \<open>reorderTasks\<close>, \<open>deleteTask\<close> and \<open>deleteSession\<close>. An
  update that takes \<open>is_completed\<close> from false to true sets \<open>completed_at\<close> to the
  time of the update, one that leaves it true keeps \<open>completed_at\<close>, and one that
  leaves it false clears \<open>completed_at\<close>.
\<close>

lemma updates_keep_completion_consistent:
  assumes "\<forall>t \<in> set (tasks db). completion_consistent t"
  shows "(\<forall>t \<in> set (tasks (snd (updateTask ctx db tid u))). completion_consistent t) \<and>
         (\<forall>t \<in> set (tasks (snd (toggleTaskCompletion ctx db tid))). completion_consistent t) \<and>
         (\<forall>t \<in> set (tasks (snd (deleteTask ctx db tid))). completion_consistent t) \<and>
         (\<forall>t \<in> set (tasks (snd (deleteSession ctx db sid))). completion_consistent t) \<and>
         (\<forall>t \<in> set (tasks (snd (reorderTasks ctx db ups))). completion_consistent t) \<and>
         (getTask ctx db tid = Inr OLD \<and> updateTask ctx db tid u = (Inr r, db') \<longrightarrow>
            (is_completed r \<and> \<not> is_completed OLD \<longrightarrow> completed_at r = Some (NOW ctx)) \<and>
            (is_completed r \<and> is_completed OLD \<longrightarrow> completed_at r = completed_at OLD) \<and>
            (\<not> is_completed r \<longrightarrow> completed_at r = None))"
  using updateTask_consistent [OF assms]
    toggleTaskCompletion_consistent [OF assms] deleteTask_consistent [OF assms]
    deleteSession_tasks_consistent [OF assms] reorderTasks_consistent [OF assms]
    updateTask_transitions(2-4) [of ctx db tid OLD u r db']
  by blast

lemmas tasks_eval =
  createTask_def insert_task_def check_task_row_def new_task_def tasks_policy_def
  title_not_empty_def tasks_session_fk_def read_chapter_def at_time_def empty_database_def
  updateTask_def update_task_row_def set_task_columns_def tasks_before_update_def
  set_task_completed_at_def update_tasks_updated_at_def getTask_def single_def
  three_tasks_db_def sample_task_def mark_completed_def no_task_update_def
  toggleTaskCompletion_def completion_consistent_def

text \<open>
  C9: at all times, also right after a task is created with \<open>is_completed\<close>
  already true, a completed task carries a \<open>completed_at\<close>. The code breaks this
  on the insert path: \<open>createTask\<close> with \<open>is_completed: true\<close> in its object stores
  the task completed and without \<open>completed_at\<close>, because
  \<open>task_completion_trigger\<close> fires on update only. The update path does what the
  insert path misses: the same principal marking task \<open>T2\<close> completed five
  minutes past ten gets \<open>completed_at\<close> set to that instant.
\<close>

theorem created_completed_lacks_completed_at:
  "fst (createTask (at_time ''U'' ten_o_clock) empty_database
         (read_chapter\<lparr>ti_is_completed := Some True\<rparr>)) =
     Inr \<lparr> task_id = ''row-'', task_user_id = ''U'', task_session_id = None,
           title = ''read chapter'', description = None, is_completed = True,
           completed_at = None, priority = 0, due_date = None,
           task_created_at = ten_o_clock, task_updated_at = ten_o_clock, order_index = 0 \<rparr> \<and>
   map completion_consistent
     (tasks (snd (createTask (at_time ''U'' ten_o_clock) empty_database
        (read_chapter\<lparr>ti_is_completed := Some True\<rparr>)))) = [False] \<and>
   fst (updateTask (at_time ''U'' (ten_o_clock + minutes 5)) three_tasks_db ''T2'' mark_completed) =
     Inr ((sample_task ''T2'' ''U'' False)
            \<lparr>is_completed := True, completed_at := Some (ten_o_clock + minutes 5),
             task_updated_at := ten_o_clock + minutes 5\<rparr>)"
  by (simp add: tasks_eval)

subsection \<open>Row-level authorization\<close>

lemma no_visible_session:
  assumes "auth_uid ctx \<noteq> Some owner" "session_belongs_to db sid owner"
  shows "filter (\<lambda>s. study_sessions_policy ctx s \<and> sess_id s = sid) (study_sessions db) = []"
  using assms by (auto simp: filter_empty_conv study_sessions_policy_def session_belongs_to_def)

lemma no_visible_session_of_owner:
  assumes "auth_uid ctx \<noteq> Some owner"
  shows "filter (\<lambda>s. study_sessions_policy ctx s \<and> user_id s = owner \<and> P s) (study_sessions db) = []"
  using assms by (auto simp: filter_empty_conv study_sessions_policy_def)

lemma no_visible_task:
  assumes "auth_uid ctx \<noteq> Some owner" "task_belongs_to db tid owner"
  shows "filter (\<lambda>t. tasks_policy ctx t \<and> task_id t = tid) (tasks db) = []"
  using assms by (auto simp: filter_empty_conv tasks_policy_def task_belongs_to_def)

lemma no_tag_policy:
  assumes "auth_uid ctx \<noteq> Some owner" "session_belongs_to db sid owner" "session_id r = sid"
  shows "\<not> study_session_tags_policy ctx db r"
  using assms by (auto simp: study_session_tags_policy_def session_belongs_to_def)

lemma other_getSession:
  assumes "auth_uid ctx \<noteq> Some owner" "session_belongs_to db sid owner"
  shows "getSession ctx db sid = Inl PGRST116"
  by (simp add: getSession_def no_visible_session [OF assms] single_def)

lemma other_updateSession:
  assumes "auth_uid ctx \<noteq> Some owner" "session_belongs_to db sid owner"
  shows "updateSession ctx db sid u = (Inl PGRST116, db)"
  by (simp add: updateSession_def no_visible_session [OF assms])

lemma other_endSession:
  assumes "auth_uid ctx \<noteq> Some owner" "session_belongs_to db sid owner"
  shows "endSession ctx db sid d = (Inl PGRST116, db)"
  by (simp add: endSession_def other_updateSession [OF assms])

lemma on_delete_set_null_none: "map (on_delete_set_null ctx []) ts = ts"
  by (induction ts) (simp_all add: on_delete_set_null_def split: option.splits)

lemma other_deleteSession:
  assumes "auth_uid ctx \<noteq> Some owner" "session_belongs_to db sid owner"
  shows "deleteSession ctx db sid = (Inr (), db)"
proof -
  have none: "filter (\<lambda>s. study_sessions_policy ctx s \<and> sess_id s = sid) (study_sessions db) = []"
    by (rule no_visible_session [OF assms])
  then have keep: "filter (\<lambda>s. \<not> (study_sessions_policy ctx s \<and> sess_id s = sid)) (study_sessions db)
      = study_sessions db"
    by (simp add: filter_empty_conv filter_id_conv)
  show ?thesis
    unfolding deleteSession_def deleted_ids_def Let_def none keep
    by (simp add: on_delete_set_null_none)
qed

lemma other_createSession:
  assumes "auth_uid ctx \<noteq> Some owner" "ins_user_id d = owner"
  shows "\<exists>err. createSession ctx db d = (Inl err, db)"
proof -
  have "\<exists>err. insert_study_session_row ctx (new_study_session ctx d) = Inl err"
    using assms
    by (auto simp: insert_study_session_row_def calculate_session_duration_def
        study_sessions_policy_def new_study_session_def split: sum.splits option.splits)
  then show ?thesis by (auto simp: createSession_def)
qed

lemma run_window_nil: "run_window q [] = Inr [] \<or> run_window q ([] :: 'a list) = Inl Invalid_row_count"
  by (simp add: run_window_def Let_def split: option.splits)

lemma other_getUserSessions:
  assumes "auth_uid ctx \<noteq> Some owner"
  shows "getUserSessions ctx db owner options = Inr [] \<or>
         getUserSessions ctx db owner options = Inl Invalid_row_count"
proof -
  have "filter (\<lambda>s. study_sessions_policy ctx s \<and> user_id s = owner) (study_sessions db) = []"
    using assms by (auto simp: filter_empty_conv study_sessions_policy_def)
  then show ?thesis
    using run_window_nil [of "apply_pagination options"]
    by (simp add: getUserSessions_def order_rows_def Let_def)
qed

lemma other_getActiveSession:
  assumes "auth_uid ctx \<noteq> Some owner"
  shows "getActiveSession ctx db owner = Inr None"
  by (simp add: getActiveSession_def no_visible_session_of_owner [OF assms] order_rows_def
      maybeSingle_def)

lemma other_getSessionsByTag:
  assumes "auth_uid ctx \<noteq> Some owner"
  shows "getSessionsByTag ctx db owner t = Inr []"
  by (simp add: getSessionsByTag_def no_visible_session_of_owner [OF assms] order_rows_def Let_def)

lemma other_insert_tag_rows:
  assumes "auth_uid ctx \<noteq> Some owner" "session_belongs_to db sid owner" "ns \<noteq> []"
  shows "\<exists>err. insert_tag_rows ctx db tbl k
            (map (\<lambda>t. \<lparr>ins_session_id = sid, ins_tag = f t\<rparr>) ns) = Inl err"
proof (cases ns)
  case Nil
  then show ?thesis using assms(3) by simp
next
  case (Cons t rest)
  have "\<not> study_session_tags_policy ctx db
      \<lparr>tag_id = uuid_generate_v4 ctx k, session_id = sid, tag = f t, tag_created_at = NOW ctx\<rparr>"
    by (rule no_tag_policy [OF assms(1,2)]) simp
  then show ?thesis using Cons by (simp add: Let_def)
qed

lemma other_addSessionTags:
  assumes "auth_uid ctx \<noteq> Some owner" "session_belongs_to db sid owner"
  shows "snd (addSessionTags ctx db sid tags) = db"
    "tags \<noteq> [] \<Longrightarrow> \<exists>err. fst (addSessionTags ctx db sid tags) = Inl err"
proof -
  show "tags \<noteq> [] \<Longrightarrow> \<exists>err. fst (addSessionTags ctx db sid tags) = Inl err"
    using other_insert_tag_rows [OF assms, of tags "study_session_tags db" 0 normalize_tag]
    by (auto simp: addSessionTags_def)
  show "snd (addSessionTags ctx db sid tags) = db"
  proof (cases tags)
    case Nil
    then show ?thesis by (simp add: addSessionTags_def)
  next
    case (Cons t rest)
    then show ?thesis
      using other_insert_tag_rows [OF assms, of tags "study_session_tags db" 0 normalize_tag]
      by (auto simp: addSessionTags_def)
  qed
qed

lemma other_getSessionTags:
  assumes "auth_uid ctx \<noteq> Some owner" "session_belongs_to db sid owner"
  shows "getSessionTags ctx db sid = Inr []"
  using no_tag_policy [OF assms]
  by (auto simp: getSessionTags_def filter_empty_conv)

lemma other_removeSessionTag:
  assumes "auth_uid ctx \<noteq> Some owner" "session_belongs_to db sid owner"
  shows "removeSessionTag ctx db sid t = (Inr (), db)"
proof -
  have "filter (\<lambda>r. \<not> (study_session_tags_policy ctx db r \<and> session_id r = sid \<and>
                        tag r = normalize_tag t)) (study_session_tags db) = study_session_tags db"
    using no_tag_policy [OF assms] by (auto simp: filter_id_conv)
  then show ?thesis by (simp add: removeSessionTag_def)
qed

lemma other_getTask:
  assumes "auth_uid ctx \<noteq> Some owner" "task_belongs_to db tid owner"
  shows "getTask ctx db tid = Inl PGRST116"
  by (simp add: getTask_def no_visible_task [OF assms] single_def)

lemma other_updateTask:
  assumes "auth_uid ctx \<noteq> Some owner" "task_belongs_to db tid owner"
  shows "updateTask ctx db tid u = (Inl PGRST116, db)"
  by (simp add: updateTask_def no_visible_task [OF assms])

lemma other_toggleTaskCompletion:
  assumes "auth_uid ctx \<noteq> Some owner" "task_belongs_to db tid owner"
  shows "toggleTaskCompletion ctx db tid = (Inl PGRST116, db)"
  by (simp add: toggleTaskCompletion_def other_getTask [OF assms])

lemma other_deleteTask:
  assumes "auth_uid ctx \<noteq> Some owner" "task_belongs_to db tid owner"
  shows "deleteTask ctx db tid = (Inr (), db)"
proof -
  have "filter (\<lambda>t. tasks_policy ctx t \<and> task_id t = tid) (tasks db) = []"
    by (rule no_visible_task [OF assms])
  then have "filter (\<lambda>t. \<not> (tasks_policy ctx t \<and> task_id t = tid)) (tasks db) = tasks db"
    by (simp add: filter_empty_conv filter_id_conv)
  then show ?thesis by (simp add: deleteTask_def)
qed

lemma other_createTask:
  assumes "auth_uid ctx \<noteq> Some owner" "ti_user_id d = owner"
  shows "\<exists>err. createTask ctx db d = (Inl err, db)"
  using assms
  by (auto simp: createTask_def insert_task_def check_task_row_def tasks_policy_def new_task_def)

lemma other_getUserTasks:
  assumes "auth_uid ctx \<noteq> Some owner"
  shows "getUserTasks ctx db owner options = Inr [] \<or>
         getUserTasks ctx db owner options = Inl Invalid_row_count"
proof -
  have "filter (\<lambda>t. tasks_policy ctx t \<and> task_user_id t = owner) (tasks db) = []"
    using assms by (auto simp: filter_empty_conv tasks_policy_def)
  then show ?thesis
    using run_window_nil [where 'a = task]
    by (auto simp: getUserTasks_def order_tasks_def Let_def split: option.splits)
qed

lemma all_or_error_Inr: "all_or_error (map Inr xs) = Inr xs"
  by (induction xs) simp_all

lemma other_update_order_index:
  assumes "auth_uid ctx \<noteq> Some owner" "task_belongs_to db tid owner"
  shows "update_order_index ctx db tid idx = db"
proof -
  have eq: "map (\<lambda>t. if tasks_policy ctx t \<and> task_id t = tid
                 then update_task_row ctx db (no_task_update\<lparr>tu_order_index := SetTo idx\<rparr>) t
                 else Inr t) (tasks db) = map Inr (tasks db)"
    using assms by (auto simp: tasks_policy_def task_belongs_to_def)
  show ?thesis
    unfolding update_order_index_def eq all_or_error_Inr by simp
qed

lemma other_reorderTasks:
  assumes "auth_uid ctx \<noteq> Some owner" "\<forall>(tid, idx) \<in> set ups. task_belongs_to db tid owner"
  shows "reorderTasks ctx db ups = (Inr (), db)"
proof -
  have "reorder_statements ctx db ups = db"
    using assms(2)
  proof (induction ups)
    case Nil
    then show ?case by simp
  next
    case (Cons a ups)
    obtain tid idx where a: "a = (tid, idx)" by (cases a)
    then have "update_order_index ctx db tid idx = db"
      using Cons.prems other_update_order_index [OF assms(1)] by simp
    then show ?case using Cons a by simp
  qed
  then show ?thesis by (simp add: reorderTasks_def)
qed

text \<open>
  C3 (amended): the operations of the session, tag and task services that reach
  the tables directly are filtered by the row-level policies, principal equal to
  owner. For a principal other than the owner (or none), aimed at the owner's
  session, task or user id: every read returns no row of the owner's (a
  single-row read fails with the no-row error, a list read succeeds with the
  empty list), and every write leaves the database as it was (an update, an end
  or a toggle fails with the no-row error, an insert on the owner's behalf fails,
  a delete or a reorder succeeds having touched nothing).
\<close>

theorem other_principal_reads_and_changes_nothing:
  assumes "auth_uid ctx \<noteq> Some owner"
    and "session_belongs_to db sid owner"
    and "task_belongs_to db tid owner"
    and "ins_user_id sd = owner"
    and "ti_user_id td = owner"
    and "\<forall>(t, idx) \<in> set ups. task_belongs_to db t owner"
  shows "getSession ctx db sid = Inl PGRST116 \<and>
         getUserSessions ctx db owner options \<in> {Inr [], Inl Invalid_row_count} \<and>
         getActiveSession ctx db owner = Inr None \<and>
         getSessionsByTag ctx db owner t = Inr [] \<and>
         getSessionTags ctx db sid = Inr [] \<and>
         getTask ctx db tid = Inl PGRST116 \<and>
         getUserTasks ctx db owner task_opts \<in> {Inr [], Inl Invalid_row_count} \<and>
         (\<exists>err. createSession ctx db sd = (Inl err, db)) \<and>
         updateSession ctx db sid u = (Inl PGRST116, db) \<and>
         endSession ctx db sid d = (Inl PGRST116, db) \<and>
         deleteSession ctx db sid = (Inr (), db) \<and>
         snd (addSessionTags ctx db sid tags) = db \<and>
         (tags = [] \<or> (\<exists>err. fst (addSessionTags ctx db sid tags) = Inl err)) \<and>
         removeSessionTag ctx db sid t = (Inr (), db) \<and>
         (\<exists>err. createTask ctx db td = (Inl err, db)) \<and>
         updateTask ctx db tid tu = (Inl PGRST116, db) \<and>
         toggleTaskCompletion ctx db tid = (Inl PGRST116, db) \<and>
         deleteTask ctx db tid = (Inr (), db) \<and>
         reorderTasks ctx db ups = (Inr (), db)"
proof -
  note a = assms(1) and s = assms(1,2) and k = assms(1,3)
  have "getUserSessions ctx db owner options \<in> {Inr [], Inl Invalid_row_count}"
    using other_getUserSessions [OF a, of db options] by blast
  moreover have "getUserTasks ctx db owner task_opts \<in> {Inr [], Inl Invalid_row_count}"
    using other_getUserTasks [OF a, of db task_opts] by blast
  moreover have "tags = [] \<or> (\<exists>err. fst (addSessionTags ctx db sid tags) = Inl err)"
    using other_addSessionTags(2) [OF s, of tags] by blast
  moreover note other_getSession [OF s] other_getActiveSession [OF a, of db]
    other_getSessionsByTag [OF a, of db t] other_getSessionTags [OF s] other_getTask [OF k]
    other_createSession [OF a assms(4), of db] other_updateSession [OF s, of u]
    other_endSession [OF s, of d] other_deleteSession [OF s]
    other_addSessionTags(1) [OF s, of tags] other_removeSessionTag [OF s, of t]
    other_createTask [OF a assms(5), of db] other_updateTask [OF k, of tu]
    other_toggleTaskCompletion [OF k] other_deleteTask [OF k]
    other_reorderTasks [OF a assms(6)]
  ultimately show ?thesis by (intro conjI)
qed

lemmas guard_eval =
  shared_db_def pomodoro_db_def pomodoro_def empty_database_def sample_task_def at_time_def
  session_belongs_to_def task_belongs_to_def hundred_seconds_def read_chapter_def

text \<open>
  C3 (as stated): any read or write of an owner's data by another principal
  fails. Principal \<open>B\<close> deleting owner \<open>U\<close>'s session \<open>S\<close> gets a success (and
  the database is unchanged); \<open>B\<close> listing \<open>U\<close>'s sessions gets a success with the
  empty list.
\<close>

theorem other_principal_fails_counterexample:
  "deleteSession (at_time ''B'' ten_o_clock) shared_db ''S'' = (Inr (), shared_db) \<and>
   getUserSessions (at_time ''B'' ten_o_clock) shared_db ''U'' None = Inr [] \<and>
   map user_id (study_sessions shared_db) = [''U'']"
  by (simp add: guard_eval deleteSession_def deleted_ids_def study_sessions_policy_def
      on_delete_set_null_def getUserSessions_def in_date_range_def order_rows_def
      apply_pagination_def run_window_def Let_def)

text \<open>
  C3, witness: principal \<open>B\<close> against \<open>U\<close>'s session \<open>S\<close> and task \<open>T1\<close>; \<open>U\<close>
  reads the session that \<open>B\<close> cannot.
\<close>

theorem other_principal_reads_and_changes_nothing_witness:
  "auth_uid (at_time ''B'' ten_o_clock) \<noteq> Some ''U'' \<and>
   session_belongs_to shared_db ''S'' ''U'' \<and>
   task_belongs_to shared_db ''T1'' ''U'' \<and>
   ins_user_id hundred_seconds = ''U'' \<and>
   ti_user_id read_chapter = ''U'' \<and>
   list_all (\<lambda>(t, idx). task_belongs_to shared_db t ''U'') [(''T1'', 3::int)] \<and>
   getSession (at_time ''B'' ten_o_clock) shared_db ''S'' = Inl PGRST116 \<and>
   getSession (at_time ''U'' ten_o_clock) shared_db ''S'' = Inr pomodoro \<and>
   endSession (at_time ''B'' ten_o_clock) shared_db ''S'' None = (Inl PGRST116, shared_db) \<and>
   deleteSession (at_time ''B'' ten_o_clock) shared_db ''S'' = (Inr (), shared_db) \<and>
   snd (addSessionTags (at_time ''B'' ten_o_clock) shared_db ''S'' [''Physics'']) = shared_db \<and>
   toggleTaskCompletion (at_time ''B'' ten_o_clock) shared_db ''T1'' = (Inl PGRST116, shared_db) \<and>
   reorderTasks (at_time ''B'' ten_o_clock) shared_db [(''T1'', 3)] = (Inr (), shared_db)"
proof -
  let ?ctx = "at_time ''B'' ten_o_clock"
  have a: "auth_uid ?ctx \<noteq> Some ''U''" by (simp add: at_time_def)
  have s: "session_belongs_to shared_db ''S'' ''U''" by (simp add: guard_eval)
  have k: "task_belongs_to shared_db ''T1'' ''U''" by (simp add: guard_eval)
  have sd: "ins_user_id hundred_seconds = ''U''" by (simp add: hundred_seconds_def)
  have td: "ti_user_id read_chapter = ''U''" by (simp add: read_chapter_def)
  have ups: "\<forall>(t, idx) \<in> set [(''T1'', 3::int)]. task_belongs_to shared_db t ''U''"
    using k by simp
  have own: "getSession (at_time ''U'' ten_o_clock) shared_db ''S'' = Inr pomodoro"
    by (simp add: getSession_def single_def study_sessions_policy_def shared_db_def
        pomodoro_db_def pomodoro_def empty_database_def at_time_def)
  from a s k sd td ups own
    other_principal_reads_and_changes_nothing [OF a s k sd td ups,
      where d = None and tags = "[''Physics'']"]
  show ?thesis by (simp only: list_all_iff simp_thms)
qed

text \<open>
  The streak, the completion rate and the statistics do not depend on the
  principal at all: \<open>get_study_streak\<close> and \<open>get_task_completion_rate\<close> are
  \<open>SECURITY DEFINER\<close> functions of a \<open>p_user_id\<close>, and the view is read as
  written.
\<close>

lemma aggregates_take_no_principal:
  "getStudyStreak (ctx\<lparr>auth_uid := p\<rparr>) db owner = getStudyStreak ctx db owner \<and>
   getTaskCompletionRate (ctx\<lparr>auth_uid := p\<rparr>) db owner = getTaskCompletionRate ctx db owner \<and>
   getUserStats (ctx\<lparr>auth_uid := p\<rparr>) db owner = getUserStats ctx db owner"
  by (simp add: getStudyStreak_def get_study_streak_def CURRENT_DATE_def
      getTaskCompletionRate_def getUserStats_def)

end
